theory Spec2Isabelle
  imports Main "HOL-Library.Sublist"
begin

section \<open>Data model\<close>

text \<open>
  The Go file \<^verbatim>\<open>k8sutils/redis-cluster-cmd-handler.go\<close> drives a Redis cluster through
  the Kubernetes API, the go-redis client and a pod exec session. Those three systems are
  outside the repository, so the model takes them as an environment: every call that leaves
  the process is appended to a trace of events, and the environment answers each call as a
  function of the trace so far (any sequence of answers can be scripted that way).
  Calls to the logger do not influence control flow and are left out.
\<close>

datatype error = Error string

text \<open>A Go run-time panic. The only one the code can raise is an index out of range.\<close>

datatype go_panic = IndexOutOfRange

record RedisDetails =
  PodName :: string
  Namespace :: string

text \<open>The parts of a \<^verbatim>\<open>corev1.Pod\<close> that the code reads: \<^verbatim>\<open>Status.PodIP\<close> and the names
  of \<^verbatim>\<open>Spec.Containers\<close>.\<close>

record pod =
  PodIP :: string
  Containers :: "string list"

text \<open>The parts of the \<^verbatim>\<open>RedisCluster\<close> resource that the code reads. The method
  \<^verbatim>\<open>Spec.GetReplicaCounts\<close> lives in the api package, which is not part of the sources;
  it is a field here. It returns an int32, which the code converts to int before any
  arithmetic, so no operation on it can overflow. \<^verbatim>\<open>ExistingPasswordSecret\<close> holds the
  name and the key of the secret; \<^verbatim>\<open>TLS\<close> says whether \<^verbatim>\<open>Spec.TLS\<close> is non-nil.\<close>

record RedisCluster =
  cr_Name :: string
  cr_Namespace :: string
  GetReplicaCounts :: "string \<Rightarrow> int"
  ExistingPasswordSecret :: "(string \<times> string) option"
  TLS :: bool

text \<open>The options a go-redis client is built from. \<^verbatim>\<open>getRedisTLSConfig(cr, redisInfo)\<close> is
  not part of the sources; the field \<open>TLSFor\<close> keeps its argument \<^verbatim>\<open>redisInfo\<close>, the pod the
  client was configured for.\<close>

record redis_client =
  Addr :: string
  Password :: string
  DB :: nat
  TLSFor :: RedisDetails

datatype event =
    PodGet RedisDetails
  | SecretGet string string string
  | RedisCmd redis_client "string list"
  | Stream string string string "string list"
  | CRGet string string

text \<open>The environment. \<open>pods_Get\<close> is \<^verbatim>\<open>CoreV1().Pods(ns).Get(name)\<close>; \<open>net_To4\<close> says
  whether \<^verbatim>\<open>net.ParseIP(ip).To4()\<close> is non-nil; \<open>redis_Process\<close> is the reply of the Redis
  server to one command sent by \<^verbatim>\<open>client.Process\<close>; \<open>csv_ReadAll\<close> is \<^verbatim>\<open>ReadAll\<close> of an
  \<^verbatim>\<open>encoding/csv\<close> reader with the given \<^verbatim>\<open>Comma\<close> and \<^verbatim>\<open>FieldsPerRecord\<close>; \<open>cl_Get\<close>
  fetches the custom resource.\<close>

record env =
  pods_Get :: "event list \<Rightarrow> RedisDetails \<Rightarrow> error + pod"
  getRedisPassword :: "event list \<Rightarrow> string \<Rightarrow> string \<Rightarrow> string \<Rightarrow> string \<times> error option"
  net_To4 :: "string \<Rightarrow> bool"
  redis_Process :: "event list \<Rightarrow> redis_client \<Rightarrow> string list \<Rightarrow> error + string"
  csv_ReadAll :: "char \<Rightarrow> int \<Rightarrow> string \<Rightarrow> error + string list list"
  generateK8sConfig :: "event list \<Rightarrow> error option"
  NewSPDYExecutor :: "event list \<Rightarrow> error option"
  cl_Get :: "event list \<Rightarrow> string \<Rightarrow> string \<Rightarrow> error + RedisCluster"

section \<open>Strings\<close>

text \<open>\<^verbatim>\<open>strconv.Itoa\<close>: the decimal digits of an int.\<close>

fun Itoa_nat :: "nat \<Rightarrow> string" where
  "Itoa_nat n =
     (if n < 10 then [''0123456789'' ! n]
      else Itoa_nat (n div 10) @ [''0123456789'' ! (n mod 10)])"

declare Itoa_nat.simps [simp del]

definition Itoa :: "int \<Rightarrow> string" where
  "Itoa i = (if i < 0 then CHR ''-'' # Itoa_nat (nat (- i)) else Itoa_nat (nat i))"

text \<open>\<^verbatim>\<open>strings.Contains\<close>.\<close>

fun Contains :: "string \<Rightarrow> string \<Rightarrow> bool" where
  "Contains [] substr = (substr = [])"
| "Contains (c # s) substr = (prefix substr (c # s) \<or> Contains s substr)"

text \<open>\<^verbatim>\<open>strings.Split\<close> for a separator of one character.\<close>

fun Split :: "string \<Rightarrow> char \<Rightarrow> string list" where
  "Split [] sep = [[]]"
| "Split (c # s) sep =
     (if c = sep then [] # Split s sep
      else (case Split s sep of [] \<Rightarrow> [[c]] | w # ws \<Rightarrow> (c # w) # ws))"

section \<open>Node Locator and client configuration\<close>

text \<open>\<^verbatim>\<open>getRedisServerIP\<close>. The generated Kubernetes client returns a non-nil, empty
  \<^verbatim>\<open>Pod\<close> together with the error, so after a failed lookup \<^verbatim>\<open>redisPod.Status.PodIP\<close> is
  the empty string. The error is only logged.\<close>

definition empty_pod :: pod where
  "empty_pod = \<lparr>PodIP = [], Containers = []\<rparr>"

definition getRedisServerIP :: "env \<Rightarrow> RedisDetails \<Rightarrow> event list \<Rightarrow> string \<times> event list" where
  "getRedisServerIP e redisInfo h =
     (let redisPod = (case pods_Get e h redisInfo of Inl err \<Rightarrow> empty_pod | Inr p \<Rightarrow> p);
          redisIP = PodIP redisPod;
          redisIP = (if \<not> net_To4 e redisIP then ''['' @ redisIP @ '']'' else redisIP)
      in (redisIP, h @ [PodGet redisInfo]))"

definition configureRedisClient ::
  "env \<Rightarrow> RedisCluster \<Rightarrow> string \<Rightarrow> event list \<Rightarrow> redis_client \<times> event list" where
  "configureRedisClient e cr podName h =
     (let redisInfo = \<lparr>PodName = podName, Namespace = cr_Namespace cr\<rparr> in
      case ExistingPasswordSecret cr of
        Some (name, key) \<Rightarrow>
          (let (pass, err) = getRedisPassword e h (cr_Namespace cr) name key;
               h1 = h @ [SecretGet (cr_Namespace cr) name key];
               (ip, h2) = getRedisServerIP e redisInfo h1
           in (\<lparr>Addr = ip @ '':6379'', Password = pass, DB = 0, TLSFor = redisInfo\<rparr>, h2))
      | None \<Rightarrow>
          (let (ip, h1) = getRedisServerIP e redisInfo h
           in (\<lparr>Addr = ip @ '':6379'', Password = [], DB = 0, TLSFor = redisInfo\<rparr>, h1)))"

text \<open>\<^verbatim>\<open>client.Process(cmd)\<close>: the command is sent, the reply is stored in \<^verbatim>\<open>cmd\<close> and its
  error is returned; \<^verbatim>\<open>cmd.Result()\<close> reads the stored reply.\<close>

definition Process ::
  "env \<Rightarrow> redis_client \<Rightarrow> string list \<Rightarrow> event list \<Rightarrow> (error + string) \<times> event list" where
  "Process e client cmd h = (redis_Process e h client cmd, h @ [RedisCmd client cmd])"

section \<open>Forced failover\<close>

text \<open>One iteration of the loop of \<^verbatim>\<open>executeFailoverCommand\<close>. \<open>Some err\<close> is
  \<^verbatim>\<open>return err\<close>, \<open>None\<close> is the end of the iteration.\<close>

definition executeFailoverCommand_body ::
  "env \<Rightarrow> RedisCluster \<Rightarrow> string \<Rightarrow> int \<Rightarrow> event list \<Rightarrow> error option \<times> event list" where
  "executeFailoverCommand_body e cr podName podCount h =
     (let (client, h1) = configureRedisClient e cr (podName @ Itoa podCount) h;
          cmd = [''cluster'', ''reset''];
          (r1, h2) = Process e client cmd h1;
          (flushed, h3) =
            (case r1 of
               Inl err \<Rightarrow>
                 (let (r2, h3) = Process e client [''flushall''] h2
                  in (case r2 of Inl err \<Rightarrow> (Some err, h3) | Inr v \<Rightarrow> (None, h3)))
             | Inr v \<Rightarrow> (None, h2))
      in case flushed of
           Some err \<Rightarrow> (Some err, h3)
         | None \<Rightarrow>
             (let (r3, h4) = Process e client cmd h3
              in case r3 of
                   Inl err \<Rightarrow> (Some err, h4)
                 | Inr output \<Rightarrow> (None, h4)))"

function executeFailoverCommand_loop ::
  "env \<Rightarrow> RedisCluster \<Rightarrow> string \<Rightarrow> int \<Rightarrow> int \<Rightarrow> event list \<Rightarrow> error option \<times> event list" where
  "executeFailoverCommand_loop e cr podName replicas podCount h =
     (if podCount \<le> replicas - 1 then
        (case executeFailoverCommand_body e cr podName podCount h of
           (Some err, h') \<Rightarrow> (Some err, h')
         | (None, h') \<Rightarrow> executeFailoverCommand_loop e cr podName replicas (podCount + 1) h')
      else (None, h))"
  by pat_completeness auto
termination
  by (relation "measure (\<lambda>(e, cr, podName, replicas, podCount, h). nat (replicas - podCount))") auto

declare executeFailoverCommand_loop.simps [simp del]

definition executeFailoverCommand ::
  "env \<Rightarrow> RedisCluster \<Rightarrow> string \<Rightarrow> event list \<Rightarrow> error option \<times> event list" where
  "executeFailoverCommand e cr role h =
     (let replicas = GetReplicaCounts cr role;
          podName = cr_Name cr @ ''-'' @ role @ ''-''
      in executeFailoverCommand_loop e cr podName replicas 0 h)"

definition ExecuteFailoverOperation ::
  "env \<Rightarrow> RedisCluster \<Rightarrow> event list \<Rightarrow> error option \<times> event list" where
  "ExecuteFailoverOperation e cr h =
     (case executeFailoverCommand e cr ''leader'' h of
        (Some err, h1) \<Rightarrow> (Some err, h1)
      | (None, h1) \<Rightarrow>
          (case executeFailoverCommand e cr ''follower'' h1 of
             (Some err, h2) \<Rightarrow> (Some err, h2)
           | (None, h2) \<Rightarrow> (None, h2)))"

section \<open>Topology Reader\<close>

text \<open>\<^verbatim>\<open>checkRedisCluster\<close>. Every error (of the command, of reading its result, of the
  CSV reader) is logged and execution goes on: a failed command leaves the empty string as
  output, and \<^verbatim>\<open>ReadAll\<close> returns nil records together with its error.\<close>

definition checkRedisCluster ::
  "env \<Rightarrow> RedisCluster \<Rightarrow> event list \<Rightarrow> string list list \<times> event list" where
  "checkRedisCluster e cr h =
     (let (client, h1) = configureRedisClient e cr (cr_Name cr @ ''-leader-0'') h;
          (r, h2) = Process e client [''cluster'', ''nodes''] h1;
          output = (case r of Inl err \<Rightarrow> [] | Inr v \<Rightarrow> v);
          csvOutputRecords =
            (case csv_ReadAll e CHR '' '' (- 1) output of Inl err \<Rightarrow> [] | Inr records \<Rightarrow> records)
      in (csvOutputRecords, h2))"

text \<open>The loop of \<^verbatim>\<open>getNodeIds\<close>: \<^verbatim>\<open>csvOutputRecords[i][0]\<close> panics on a record without
  fields.\<close>

fun getNodeIds_loop :: "string list list \<Rightarrow> string list \<Rightarrow> go_panic + string list" where
  "getNodeIds_loop [] nodeIds = Inr nodeIds"
| "getNodeIds_loop (record # records) nodeIds =
     (if 0 < length record then getNodeIds_loop records (nodeIds @ [record ! 0])
      else Inl IndexOutOfRange)"

definition getNodeIds :: "env \<Rightarrow> string \<Rightarrow> go_panic + (error + string list)" where
  "getNodeIds e nodesResult =
     (case csv_ReadAll e CHR '' '' (- 1) nodesResult of
        Inl err \<Rightarrow> Inr (Inl err)
      | Inr csvOutputRecords \<Rightarrow>
          (case getNodeIds_loop csvOutputRecords [] of
             Inl p \<Rightarrow> Inl p
           | Inr nodeIds \<Rightarrow> Inr (Inr nodeIds)))"

text \<open>\<^verbatim>\<open>checkRedisNodePresence\<close> (its \<^verbatim>\<open>cr\<close> is used for logging only). \<^verbatim>\<open>node[1]\<close> panics on
  a row of fewer than two fields; the loop returns at the first match.\<close>

fun checkRedisNodePresence :: "string list list \<Rightarrow> string \<Rightarrow> go_panic + bool" where
  "checkRedisNodePresence [] nodeName = Inr False"
| "checkRedisNodePresence (node # nodeList) nodeName =
     (if 1 < length node then
        (case Split (node ! 1) CHR '':'' of
           [] \<Rightarrow> Inl IndexOutOfRange
         | s0 # s \<Rightarrow> if s0 = nodeName then Inr True else checkRedisNodePresence nodeList nodeName)
      else Inl IndexOutOfRange)"

text \<open>The counting loop of \<^verbatim>\<open>CheckRedisNodeCount\<close>.\<close>

fun CheckRedisNodeCount_loop :: "string list list \<Rightarrow> string \<Rightarrow> int \<Rightarrow> go_panic + int" where
  "CheckRedisNodeCount_loop [] redisNodeType count = Inr count"
| "CheckRedisNodeCount_loop (node # clusterNodes) redisNodeType count =
     (if 2 < length node then
        CheckRedisNodeCount_loop clusterNodes redisNodeType
          (if Contains (node ! 2) redisNodeType then count + 1 else count)
      else Inl IndexOutOfRange)"

text \<open>The conversion \<^verbatim>\<open>int32(count)\<close> keeps the low 32 bits, read as two's complement.\<close>

definition int32 :: "int \<Rightarrow> int" where
  "int32 n = (n + 2 ^ 31) mod 2 ^ 32 - 2 ^ 31"

definition CheckRedisNodeCount ::
  "env \<Rightarrow> RedisCluster \<Rightarrow> string \<Rightarrow> event list \<Rightarrow> (go_panic + int) \<times> event list" where
  "CheckRedisNodeCount e cr nodeType h =
     (let (clusterNodes, h1) = checkRedisCluster e cr h;
          count = int (length clusterNodes);
          redisNodeType =
            (if nodeType = ''leader'' then ''master''
             else if nodeType = ''follower'' then ''slave''
             else nodeType)
      in if nodeType \<noteq> [] then
           (case CheckRedisNodeCount_loop clusterNodes redisNodeType 0 of
              Inl p \<Rightarrow> (Inl p, h1)
            | Inr count \<Rightarrow> (Inr (int32 count), h1))
         else (Inr (int32 count), h1))"

text \<open>The counting loop of \<^verbatim>\<open>CheckRedisClusterState\<close>. Go's \<^verbatim>\<open>||\<close> evaluates \<^verbatim>\<open>node[7]\<close>
  only when \<^verbatim>\<open>node[2]\<close> does not contain \<^verbatim>\<open>fail\<close>.\<close>

fun CheckRedisClusterState_loop :: "string list list \<Rightarrow> int \<Rightarrow> go_panic + int" where
  "CheckRedisClusterState_loop [] count = Inr count"
| "CheckRedisClusterState_loop (node # clusterNodes) count =
     (if 2 < length node then
        (if Contains (node ! 2) ''fail'' then CheckRedisClusterState_loop clusterNodes (count + 1)
         else if 7 < length node then
           CheckRedisClusterState_loop clusterNodes
             (if Contains (node ! 7) ''disconnected'' then count + 1 else count)
         else Inl IndexOutOfRange)
      else Inl IndexOutOfRange)"

definition CheckRedisClusterState ::
  "env \<Rightarrow> RedisCluster \<Rightarrow> event list \<Rightarrow> (go_panic + int) \<times> event list" where
  "CheckRedisClusterState e cr h =
     (let (clusterNodes, h1) = checkRedisCluster e cr h
      in (CheckRedisClusterState_loop clusterNodes 0, h1))"

section \<open>Replica attachment\<close>

definition getRedisTLSArgs :: "bool \<Rightarrow> string \<Rightarrow> string list" where
  "getRedisTLSArgs tlsConfig clientHost =
     (if tlsConfig then [''--tls'', ''--cacert'', ''/tls/ca.crt'', ''-h'', clientHost] else [])"

definition createRedisReplicationCommand ::
  "env \<Rightarrow> RedisCluster \<Rightarrow> RedisDetails \<Rightarrow> RedisDetails \<Rightarrow> event list \<Rightarrow> string list \<times> event list" where
  "createRedisReplicationCommand e cr leaderPod followerPod h =
     (let cmd = [''redis-cli'', ''--cluster'', ''add-node''];
          (fip, h1) = getRedisServerIP e followerPod h;
          cmd = cmd @ [fip @ '':6379''];
          (lip, h2) = getRedisServerIP e leaderPod h1;
          cmd = cmd @ [lip @ '':6379''];
          cmd = cmd @ [''--cluster-slave''];
          (cmd, h3) =
            (case ExistingPasswordSecret cr of
               Some (name, key) \<Rightarrow>
                 (let (pass, err) = getRedisPassword e h2 (cr_Namespace cr) name key
                  in (cmd @ [''-a'', pass], h2 @ [SecretGet (cr_Namespace cr) name key]))
             | None \<Rightarrow> (cmd, h2))
      in (cmd @ getRedisTLSArgs (TLS cr) (PodName leaderPod), h3))"

text \<open>The loop of \<^verbatim>\<open>getContainerID\<close>: the index of the first container with the wanted
  name, or -1.\<close>

fun getContainerID_loop :: "string list \<Rightarrow> string \<Rightarrow> int \<Rightarrow> int" where
  "getContainerID_loop [] wanted containerID = - 1"
| "getContainerID_loop (tr # containers) wanted containerID =
     (if tr = wanted then containerID
      else getContainerID_loop containers wanted (containerID + 1))"

definition getContainerID ::
  "env \<Rightarrow> RedisCluster \<Rightarrow> string \<Rightarrow> event list \<Rightarrow> (int \<times> pod) \<times> event list" where
  "getContainerID e cr podName h =
     (let redisInfo = \<lparr>PodName = podName, Namespace = cr_Namespace cr\<rparr>;
          pod = (case pods_Get e h redisInfo of Inl err \<Rightarrow> empty_pod | Inr p \<Rightarrow> p);
          targetContainer = getContainerID_loop (Containers pod) (cr_Name cr @ ''-leader'') 0
      in ((targetContainer, pod), h @ [PodGet redisInfo]))"

text \<open>\<^verbatim>\<open>executeCommand\<close> returns nothing: each failure is logged and ends the call. The event
  \<open>Stream\<close> is the command running in the container; the error of \<^verbatim>\<open>exec.Stream\<close> is only
  logged.\<close>

definition executeCommand ::
  "env \<Rightarrow> RedisCluster \<Rightarrow> string list \<Rightarrow> string \<Rightarrow> event list \<Rightarrow> event list" where
  "executeCommand e cr cmd podName h =
     (case generateK8sConfig e h of
        Some err \<Rightarrow> h
      | None \<Rightarrow>
          (let ((targetContainer, pod), h1) = getContainerID e cr podName h
           in if targetContainer < 0 then h1
              else (case NewSPDYExecutor e h1 of
                      Some err \<Rightarrow> h1
                    | None \<Rightarrow>
                        h1 @ [Stream (cr_Namespace cr) podName
                                (Containers pod ! nat targetContainer) cmd])))"

definition ExecuteRedisReplicationCommand_body ::
  "env \<Rightarrow> RedisCluster \<Rightarrow> string list list \<Rightarrow> int \<Rightarrow> event list \<Rightarrow> (go_panic + unit) \<times> event list" where
  "ExecuteRedisReplicationCommand_body e cr nodes podCount h =
     (let followerPod = \<lparr>PodName = cr_Name cr @ ''-follower-'' @ Itoa podCount,
                         Namespace = cr_Namespace cr\<rparr>;
          leaderPod = \<lparr>PodName = cr_Name cr @ ''-leader-'' @ Itoa podCount,
                       Namespace = cr_Namespace cr\<rparr>;
          (podIP, h1) = getRedisServerIP e followerPod h
      in case checkRedisNodePresence nodes podIP of
           Inl p \<Rightarrow> (Inl p, h1)
         | Inr False \<Rightarrow>
             (let (cmd, h2) = createRedisReplicationCommand e cr leaderPod followerPod h1
              in (Inr (), executeCommand e cr cmd (cr_Name cr @ ''-leader-0'') h2))
         | Inr True \<Rightarrow> (Inr (), h1))"

function ExecuteRedisReplicationCommand_loop ::
  "env \<Rightarrow> RedisCluster \<Rightarrow> string list list \<Rightarrow> int \<Rightarrow> int \<Rightarrow> event list
     \<Rightarrow> (go_panic + unit) \<times> event list" where
  "ExecuteRedisReplicationCommand_loop e cr nodes replicas podCount h =
     (if podCount \<le> replicas - 1 then
        (case ExecuteRedisReplicationCommand_body e cr nodes podCount h of
           (Inl p, h') \<Rightarrow> (Inl p, h')
         | (Inr u, h') \<Rightarrow> ExecuteRedisReplicationCommand_loop e cr nodes replicas (podCount + 1) h')
      else (Inr (), h))"
  by pat_completeness auto
termination
  by (relation "measure (\<lambda>(e, cr, nodes, replicas, podCount, h). nat (replicas - podCount))") auto

declare ExecuteRedisReplicationCommand_loop.simps [simp del]

definition ExecuteRedisReplicationCommand ::
  "env \<Rightarrow> RedisCluster \<Rightarrow> event list \<Rightarrow> (go_panic + unit) \<times> event list" where
  "ExecuteRedisReplicationCommand e cr h =
     (let replicas = GetReplicaCounts cr ''follower'';
          (nodes, h1) = checkRedisCluster e cr h
      in ExecuteRedisReplicationCommand_loop e cr nodes replicas 0 h1)"

section \<open>Graceful recovery\<close>

text \<open>The inner loop of \<^verbatim>\<open>executeMasterClusterCreation\<close>: the error of each
  \<^verbatim>\<open>cluster meet\<close> is only logged.\<close>

function executeMasterClusterCreation_inner ::
  "env \<Rightarrow> RedisCluster \<Rightarrow> string \<Rightarrow> redis_client \<Rightarrow> int \<Rightarrow> int \<Rightarrow> event list \<Rightarrow> event list" where
  "executeMasterClusterCreation_inner e cr podName client count podCount h =
     (if podCount \<le> count - 1 then
        (let currentPodName = podName @ Itoa podCount;
             (ip, h1) = getRedisServerIP e
                          \<lparr>PodName = currentPodName, Namespace = cr_Namespace cr\<rparr> h;
             (err, h2) = Process e client [''cluster'', ''meet'', ip, ''6379''] h1
         in executeMasterClusterCreation_inner e cr podName client count (podCount + 1) h2)
      else h)"
  by pat_completeness auto
termination
  by (relation "measure (\<lambda>(e, cr, podName, client, count, podCount, h). nat (count - podCount))")
    auto

declare executeMasterClusterCreation_inner.simps [simp del]

function executeMasterClusterCreation_outer ::
  "env \<Rightarrow> RedisCluster \<Rightarrow> string \<Rightarrow> int \<Rightarrow> int \<Rightarrow> event list \<Rightarrow> event list" where
  "executeMasterClusterCreation_outer e cr podName count rootPod h =
     (if rootPod \<le> count - 2 then
        (let (client, h1) = configureRedisClient e cr (podName @ Itoa rootPod) h;
             h2 = executeMasterClusterCreation_inner e cr podName client count (rootPod + 1) h1
         in executeMasterClusterCreation_outer e cr podName count (rootPod + 1) h2)
      else h)"
  by pat_completeness auto
termination
  by (relation "measure (\<lambda>(e, cr, podName, count, rootPod, h). nat (count - rootPod))") auto

declare executeMasterClusterCreation_outer.simps [simp del]

definition executeMasterClusterCreation :: "env \<Rightarrow> RedisCluster \<Rightarrow> event list \<Rightarrow> event list" where
  "executeMasterClusterCreation e cr h =
     (let count = GetReplicaCounts cr ''leader'';
          podName = cr_Name cr @ ''-'' @ ''leader'' @ ''-''
      in executeMasterClusterCreation_outer e cr podName count 0 h)"

text \<open>The inner loop of \<^verbatim>\<open>executeClusterForget\<close>: the result of each \<^verbatim>\<open>CLUSTER FORGET\<close> is
  dropped.\<close>

fun executeClusterForget_inner ::
  "env \<Rightarrow> redis_client \<Rightarrow> string list \<Rightarrow> event list \<Rightarrow> event list" where
  "executeClusterForget_inner e client [] h = h"
| "executeClusterForget_inner e client (nodeId # nodeIds) h =
     (let (r, h1) = Process e client [''CLUSTER'', ''FORGET'', nodeId] h
      in executeClusterForget_inner e client nodeIds h1)"

text \<open>One iteration of the outer loop of \<^verbatim>\<open>executeClusterForget\<close>. \<open>Inr (Some err)\<close> is
  \<^verbatim>\<open>return err\<close>, \<open>Inr None\<close> is the end of the iteration, \<open>Inl p\<close> is a panic.\<close>

definition executeClusterForget_body ::
  "env \<Rightarrow> RedisCluster \<Rightarrow> string \<Rightarrow> int \<Rightarrow> event list
     \<Rightarrow> (go_panic + error option) \<times> event list" where
  "executeClusterForget_body e cr podName podCount h =
     (let (client, h1) = configureRedisClient e cr (podName @ Itoa podCount) h;
          (r, h2) = Process e client [''cluster'', ''nodes''] h1
      in case r of
           Inl err \<Rightarrow> (Inr (Some err), h2)
         | Inr nodesResult \<Rightarrow>
             (let (takeover, h3) =
                    (if Contains nodesResult ''myself,slave'' then
                       (let (r2, h3) = Process e client [''CLUSTER'', ''FAILOVER'', ''TAKEOVER''] h2
                        in (case r2 of Inl err \<Rightarrow> (Some err, h3) | Inr v \<Rightarrow> (None, h3)))
                     else (None, h2))
              in case takeover of
                   Some err \<Rightarrow> (Inr (Some err), h3)
                 | None \<Rightarrow>
                     (case getNodeIds e nodesResult of
                        Inl p \<Rightarrow> (Inl p, h3)
                      | Inr (Inl err) \<Rightarrow> (Inr (Some err), h3)
                      | Inr (Inr nodeIds) \<Rightarrow>
                          (Inr None, executeClusterForget_inner e client nodeIds h3))))"

function executeClusterForget_loop ::
  "env \<Rightarrow> RedisCluster \<Rightarrow> string \<Rightarrow> int \<Rightarrow> int \<Rightarrow> event list
     \<Rightarrow> (go_panic + error option) \<times> event list" where
  "executeClusterForget_loop e cr podName count podCount h =
     (if podCount \<le> count - 1 then
        (case executeClusterForget_body e cr podName podCount h of
           (Inr None, h') \<Rightarrow> executeClusterForget_loop e cr podName count (podCount + 1) h'
         | (res, h') \<Rightarrow> (res, h'))
      else (Inr None, h))"
  by pat_completeness auto
termination
  by (relation "measure (\<lambda>(e, cr, podName, count, podCount, h). nat (count - podCount))") auto

declare executeClusterForget_loop.simps [simp del]

definition executeClusterForget ::
  "env \<Rightarrow> RedisCluster \<Rightarrow> string \<Rightarrow> event list \<Rightarrow> (go_panic + error option) \<times> event list" where
  "executeClusterForget e cr role h =
     (let count = GetReplicaCounts cr role;
          podName = cr_Name cr @ ''-'' @ role @ ''-''
      in executeClusterForget_loop e cr podName count 0 h)"

text \<open>\<^verbatim>\<open>ExecuteGracefulFailOverOperation\<close>: the value returned by the last call,
  \<^verbatim>\<open>executeFailoverCommand(cr, "follower")\<close>, is not used.\<close>

definition ExecuteGracefulFailOverOperation ::
  "env \<Rightarrow> RedisCluster \<Rightarrow> event list \<Rightarrow> (go_panic + error option) \<times> event list" where
  "ExecuteGracefulFailOverOperation e cr h =
     (case executeClusterForget e cr ''leader'' h of
        (Inr None, h1) \<Rightarrow>
          (case executeClusterForget e cr ''follower'' h1 of
             (Inr None, h2) \<Rightarrow>
               (let h3 = executeMasterClusterCreation e cr h2;
                    (err, h4) = executeFailoverCommand e cr ''follower'' h3
                in (Inr None, h4))
           | (res, h2) \<Rightarrow> (res, h2))
      | (res, h1) \<Rightarrow> (res, h1))"

section \<open>Command surface\<close>

datatype http_body = StatusBody "(string \<times> string) list" | ErrorBody error

record http_response =
  status :: nat
  body :: http_body

definition recoverCluster ::
  "env \<Rightarrow> string \<Rightarrow> string \<Rightarrow> event list \<Rightarrow> (go_panic + error option) \<times> event list" where
  "recoverCluster e ns cn h =
     (case cl_Get e h ns cn of
        Inl err \<Rightarrow> (Inr (Some err), h @ [CRGet ns cn])
      | Inr cr \<Rightarrow> ExecuteGracefulFailOverOperation e cr (h @ [CRGet ns cn]))"

definition forceRecoverCluster ::
  "env \<Rightarrow> string \<Rightarrow> string \<Rightarrow> event list \<Rightarrow> error option \<times> event list" where
  "forceRecoverCluster e ns cn h =
     (case cl_Get e h ns cn of
        Inl err \<Rightarrow> (Some err, h @ [CRGet ns cn])
      | Inr cr \<Rightarrow> ExecuteFailoverOperation e cr (h @ [CRGet ns cn]))"

definition resetClusterHandler ::
  "env \<Rightarrow> string \<Rightarrow> string \<Rightarrow> event list \<Rightarrow> (go_panic + http_response) \<times> event list" where
  "resetClusterHandler e ns cn h =
     (case recoverCluster e ns cn h of
        (Inl p, h') \<Rightarrow> (Inl p, h')
      | (Inr (Some err), h') \<Rightarrow> (Inr \<lparr>status = 500, body = ErrorBody err\<rparr>, h')
      | (Inr None, h') \<Rightarrow> (Inr \<lparr>status = 200, body = StatusBody [(''status'', ''OK'')]\<rparr>, h'))"

definition forceResetClusterHandler ::
  "env \<Rightarrow> string \<Rightarrow> string \<Rightarrow> event list \<Rightarrow> http_response \<times> event list" where
  "forceResetClusterHandler e ns cn h =
     (case forceRecoverCluster e ns cn h of
        (Some err, h') \<Rightarrow> (\<lparr>status = 500, body = ErrorBody err\<rparr>, h')
      | (None, h') \<Rightarrow> (\<lparr>status = 200, body = StatusBody [(''status'', ''OK'')]\<rparr>, h'))"

section \<open>Environments for the examples\<close>

text \<open>A small cluster \<open>r\<close> in namespace \<open>ns\<close>. Pods outside the table are not found.\<close>

definition test_pods :: "(string \<times> string) list" where
  "test_pods = [(''r-leader-0'', ''10.0.0.1''), (''r-leader-1'', ''10.0.0.2''),
                (''r-leader-2'', ''10.0.0.3''), (''r-follower-0'', ''10.0.1.1'')]"

text \<open>The CSV reader of the examples. On text without quotes and carriage returns an
  \<^verbatim>\<open>encoding/csv\<close> reader skips the empty lines and splits every other line at the
  delimiter, whatever the number of fields when \<^verbatim>\<open>FieldsPerRecord\<close> is negative; a quote
  inside an unquoted field is an error. The examples hold no other text.\<close>

definition csv_plain :: "char \<Rightarrow> int \<Rightarrow> string \<Rightarrow> error + string list list" where
  "csv_plain comma fieldsPerRecord input =
     (if CHR 0x22 \<in> set input then Inl (Error ''parse error: bare quote in non-quoted field'')
      else Inr (map (\<lambda>line. Split line comma)
                  (filter (\<lambda>line. line \<noteq> []) (Split input CHR 0x0A))))"

definition test_env :: "(event list \<Rightarrow> redis_client \<Rightarrow> string list \<Rightarrow> error + string) \<Rightarrow> env" where
  "test_env reply =
     \<lparr>pods_Get = (\<lambda>h r. case map_of test_pods (PodName r) of
                           None \<Rightarrow> Inl (Error ''pods not found'')
                         | Some ip \<Rightarrow> Inr \<lparr>PodIP = ip, Containers = [''r-leader'']\<rparr>),
      getRedisPassword = (\<lambda>h ns name key. ([], None)),
      net_To4 = (\<lambda>ip. ip \<noteq> [] \<and> CHR '':'' \<notin> set ip),
      redis_Process = reply,
      csv_ReadAll = csv_plain,
      generateK8sConfig = (\<lambda>h. None),
      NewSPDYExecutor = (\<lambda>h. None),
      cl_Get = (\<lambda>h ns cn. Inl (Error ''not found''))\<rparr>"

definition test_cr :: "int \<Rightarrow> int \<Rightarrow> RedisCluster" where
  "test_cr leaders followers =
     \<lparr>cr_Name = ''r'', cr_Namespace = ''ns'',
      GetReplicaCounts = (\<lambda>role. if role = ''leader'' then leaders
                                  else if role = ''follower'' then followers
                                  else leaders + followers),
      ExistingPasswordSecret = None, TLS = False\<rparr>"

definition test_pod :: "string \<Rightarrow> RedisDetails" where
  "test_pod podName = \<lparr>PodName = podName, Namespace = ''ns''\<rparr>"

definition test_client :: "string \<Rightarrow> string \<Rightarrow> redis_client" where
  "test_client podName ip =
     \<lparr>Addr = ip @ '':6379'', Password = [], DB = 0, TLSFor = test_pod podName\<rparr>"

text \<open>A node that refuses \<^verbatim>\<open>cluster reset\<close> until it has been flushed, and one that refuses
  it always.\<close>

definition reset_needs_flush :: "event list \<Rightarrow> redis_client \<Rightarrow> string list \<Rightarrow> error + string" where
  "reset_needs_flush h c cmd =
     (if cmd = [''cluster'', ''reset''] \<and> RedisCmd c [''flushall''] \<notin> set h
      then Inl (Error ''ERR CLUSTER RESET refused: the node holds keys'') else Inr ''OK'')"

definition reset_always_fails :: "event list \<Rightarrow> redis_client \<Rightarrow> string list \<Rightarrow> error + string" where
  "reset_always_fails h c cmd =
     (if cmd = [''cluster'', ''reset''] then Inl (Error ''ERR CLUSTER RESET failed'')
      else Inr ''OK'')"

section \<open>Which pod an event is addressed to\<close>

text \<open>The pod an event names: the pod looked up, the pod a Redis client was configured for,
  the pod a command is run in. Reading a secret or the custom resource names no pod.\<close>

fun event_pod :: "event \<Rightarrow> string option" where
  "event_pod (PodGet r) = Some (PodName r)"
| "event_pod (SecretGet ns name key) = None"
| "event_pod (RedisCmd c cmd) = Some (PodName (TLSFor c))"
| "event_pod (Stream ns podName container cmd) = Some podName"
| "event_pod (CRGet ns cn) = None"

text \<open>An event touches a role when it names a pod \<^verbatim>\<open><cluster>-<role>-<ordinal>\<close>.\<close>

definition touches :: "RedisCluster \<Rightarrow> string \<Rightarrow> event \<Rightarrow> bool" where
  "touches cr role ev =
     (case event_pod ev of
        None \<Rightarrow> False
      | Some p \<Rightarrow> prefix (cr_Name cr @ ''-'' @ role @ ''-'') p)"

definition only_pods :: "string \<Rightarrow> event list \<Rightarrow> bool" where
  "only_pods podName es =
     list_all (\<lambda>ev. case event_pod ev of None \<Rightarrow> True | Some p \<Rightarrow> prefix podName p) es"

text \<open>The second leader does not answer.\<close>

definition leader1_down :: "event list \<Rightarrow> redis_client \<Rightarrow> string list \<Rightarrow> error + string" where
  "leader1_down h c cmd =
     (if PodName (TLSFor c) = ''r-leader-1''
      then Inl (Error ''dial tcp 10.0.0.2:6379: i/o timeout'')
      else Inr ''OK'')"

section \<open>Node tables\<close>

text \<open>What \<^verbatim>\<open>checkRedisNodePresence\<close> compares in a row: the text of the address field
  before its first colon. For an address field \<^verbatim>\<open>ip:port@busport\<close> with an IPv4 address
  this is the IP portion.\<close>

definition ip_portion :: "string list \<Rightarrow> string" where
  "ip_portion node = takeWhile (\<lambda>c. c \<noteq> CHR '':'') (node ! 1)"

text \<open>The IP portion of an address field \<^verbatim>\<open>ip:port@busport\<close>, for an address of either
  family: the text before the last colon, the one in front of the port. An address field
  without a colon has none. A row lists an address when it has an address field of which
  the address is the IP portion.\<close>

definition address_ip :: "string \<Rightarrow> string option" where
  "address_ip a =
     (if CHR '':'' \<in> set a
      then Some (rev (tl (dropWhile (\<lambda>c. c \<noteq> CHR '':'') (rev a))))
      else None)"

definition row_lists :: "string list \<Rightarrow> string \<Rightarrow> bool" where
  "row_lists node ip = (2 \<le> length node \<and> address_ip (node ! 1) = Some ip)"

text \<open>A server that answers \<^verbatim>\<open>cluster nodes\<close> with the given text and every other command
  with \<^verbatim>\<open>OK\<close>.\<close>

definition nodes_reply :: "string \<Rightarrow> event list \<Rightarrow> redis_client \<Rightarrow> string list \<Rightarrow> error + string" where
  "nodes_reply table h c cmd = (if cmd = [''cluster'', ''nodes''] then Inr table else Inr ''OK'')"

text \<open>The table of the specification's scenario: two masters, the second one failed and
  without slot ranges.\<close>

definition two_masters_one_failed :: string where
  "two_masters_one_failed =
     ''id1 10.0.0.1:6379@16379 master - 0 0 1 connected 0-5460'' @ [CHR 0x0A] @
     ''id2 10.0.0.2:6379@16379 master,fail - 0 0 2 connected'' @ [CHR 0x0A]"

text \<open>A response cut after the flags of its only row, and one that is not tabular text.\<close>

definition truncated_failed_row :: string where
  "truncated_failed_row = ''id2 10.0.0.2:6379@16379 master,fail'' @ [CHR 0x0A]"

definition malformed_response :: string where
  "malformed_response = ''bad'' @ [CHR 0x22] @ ''row''"

text \<open>A cluster whose second leader has no pod yet, and a server that rejects
  \<^verbatim>\<open>cluster meet\<close> with an empty address.\<close>

definition unscheduled_env ::
  "(event list \<Rightarrow> redis_client \<Rightarrow> string list \<Rightarrow> error + string) \<Rightarrow> env" where
  "unscheduled_env reply =
     (test_env reply)
       \<lparr>pods_Get := (\<lambda>h r. if PodName r = ''r-leader-0''
                             then Inr \<lparr>PodIP = ''10.0.0.1'', Containers = [''r-leader'']\<rparr>
                             else Inl (Error ''pods not found''))\<rparr>"

definition meet_rejects_empty ::
  "event list \<Rightarrow> redis_client \<Rightarrow> string list \<Rightarrow> error + string" where
  "meet_rejects_empty h c cmd =
     (if cmd = [''cluster'', ''meet'', ''[]'', ''6379'']
      then Inl (Error ''ERR Invalid node address specified: []:6379'')
      else Inr ''OK'')"

section \<open>Commands in a trace\<close>

text \<open>The pod \<^verbatim>\<open><cluster>-<role>-<ordinal>\<close>.\<close>

definition pod_of :: "RedisCluster \<Rightarrow> string \<Rightarrow> int \<Rightarrow> RedisDetails" where
  "pod_of cr role i =
     \<lparr>PodName = cr_Name cr @ ''-'' @ role @ ''-'' @ Itoa i, Namespace = cr_Namespace cr\<rparr>"

text \<open>The Redis commands of a trace, in order: the pod the client was configured for, the
  address the client connects to, and the command.\<close>

fun redis_cmds :: "event list \<Rightarrow> (RedisDetails \<times> string \<times> string list) list" where
  "redis_cmds [] = []"
| "redis_cmds (RedisCmd c cmd # es) = (TLSFor c, Addr c, cmd) # redis_cmds es"
| "redis_cmds (ev # es) = redis_cmds es"

text \<open>The commands run in a container, in order.\<close>

fun exec_cmds :: "event list \<Rightarrow> string list list" where
  "exec_cmds [] = []"
| "exec_cmds (Stream ns podName container cmd # es) = cmd # exec_cmds es"
| "exec_cmds (ev # es) = exec_cmds es"

text \<open>The pairs of leader ordinals \<open>i < j\<close> below \<open>n\<close>, in ascending order.\<close>

definition meet_pairs :: "int \<Rightarrow> (int \<times> int) list" where
  "meet_pairs n = concat (map (\<lambda>i. map (\<lambda>j. (i, j)) [i + 1..n - 1]) [0..n - 2])"

text \<open>A server that answers every command with \<^verbatim>\<open>OK\<close>.\<close>

definition all_ok :: "event list \<Rightarrow> redis_client \<Rightarrow> string list \<Rightarrow> error + string" where
  "all_ok h c cmd = Inr ''OK''"

text \<open>Node tables with the first leader only, and with the first follower attached.\<close>

definition leader_only_table :: string where
  "leader_only_table =
     ''id1 10.0.0.1:6379@16379 myself,master - 0 0 1 connected 0-16383'' @ [CHR 0x0A]"

definition attached_table :: string where
  "attached_table =
     ''id1 10.0.0.1:6379@16379 myself,master - 0 0 1 connected 0-16383'' @ [CHR 0x0A] @
     ''id2 10.0.1.1:6379@16379 slave id1 0 0 1 connected'' @ [CHR 0x0A]"

text \<open>A cluster in which \<^verbatim>\<open>add-node\<close> takes effect: the follower is listed once the command
  has run.\<close>

definition attach_takes_effect ::
  "event list \<Rightarrow> redis_client \<Rightarrow> string list \<Rightarrow> error + string" where
  "attach_takes_effect h c cmd =
     (if cmd = [''cluster'', ''nodes'']
      then Inr (if exec_cmds h = [] then leader_only_table else attached_table)
      else Inr ''OK'')"

text \<open>The trace of one replica attachment of the one-leader, one-follower cluster when the
  follower is not listed: the table is read, the follower is looked up, the command is
  built and run in the container of the first leader.\<close>

definition attach_trace :: "event list" where
  "attach_trace =
     [PodGet (test_pod ''r-leader-0''),
      RedisCmd (test_client ''r-leader-0'' ''10.0.0.1'') [''cluster'', ''nodes''],
      PodGet (test_pod ''r-follower-0''),
      PodGet (test_pod ''r-follower-0''),
      PodGet (test_pod ''r-leader-0''),
      PodGet (test_pod ''r-leader-0''),
      Stream ''ns'' ''r-leader-0'' ''r-leader''
        [''redis-cli'', ''--cluster'', ''add-node'', ''10.0.1.1:6379'', ''10.0.0.1:6379'',
         ''--cluster-slave'']]"

text \<open>The one-leader, one-follower cluster on IPv6 addresses, and its node table with the
  follower attached.\<close>

definition ipv6_env ::
  "(event list \<Rightarrow> redis_client \<Rightarrow> string list \<Rightarrow> error + string) \<Rightarrow> env" where
  "ipv6_env reply =
     (test_env reply)
       \<lparr>pods_Get := (\<lambda>h r. if PodName r = ''r-leader-0''
                             then Inr \<lparr>PodIP = ''fd00::10'', Containers = [''r-leader'']\<rparr>
                             else if PodName r = ''r-follower-0''
                             then Inr \<lparr>PodIP = ''fd00::11'', Containers = [''r-leader'']\<rparr>
                             else Inl (Error ''pods not found''))\<rparr>"

definition ipv6_attached_table :: string where
  "ipv6_attached_table =
     ''id1 fd00::10:6379@16379 myself,master - 0 0 1 connected 0-16383'' @ [CHR 0x0A] @
     ''id2 fd00::11:6379@16379 slave id1 0 0 1 connected'' @ [CHR 0x0A]"

text \<open>A cluster whose second leader does not answer and whose first leader rejects every
  \<^verbatim>\<open>CLUSTER FORGET\<close>.\<close>

definition leader1_down_forget_rejected ::
  "event list \<Rightarrow> redis_client \<Rightarrow> string list \<Rightarrow> error + string" where
  "leader1_down_forget_rejected h c cmd =
     (if PodName (TLSFor c) = ''r-leader-1''
      then Inl (Error ''dial tcp 10.0.0.2:6379: i/o timeout'')
      else if cmd = [''cluster'', ''nodes''] then Inr two_masters_one_failed
      else if take 2 cmd = [''CLUSTER'', ''FORGET''] then Inl (Error ''ERR Unknown node'')
      else Inr ''OK'')"

text \<open>A cluster that lists and forgets its nodes, and rejects every other command: each
  \<^verbatim>\<open>cluster meet\<close>, \<^verbatim>\<open>cluster reset\<close> and \<^verbatim>\<open>flushall\<close> fails.\<close>

definition rebuild_fails :: "event list \<Rightarrow> redis_client \<Rightarrow> string list \<Rightarrow> error + string" where
  "rebuild_fails h c cmd =
     (if cmd = [''cluster'', ''nodes''] then Inr two_masters_one_failed
      else if take 2 cmd = [''CLUSTER'', ''FORGET''] then Inr ''OK''
      else Inl (Error ''LOADING Redis is loading the dataset in memory''))"

definition rebuild_fails_env :: env where
  "rebuild_fails_env = (test_env rebuild_fails)\<lparr>cl_Get := (\<lambda>h ns cn. Inr (test_cr 2 1))\<rparr>"

section \<open>Evaluating the examples\<close>

lemma test_env_sel:
  "pods_Get (test_env reply) = (\<lambda>h r. case map_of test_pods (PodName r) of
                           None \<Rightarrow> Inl (Error ''pods not found'')
                         | Some ip \<Rightarrow> Inr \<lparr>PodIP = ip, Containers = [''r-leader'']\<rparr>)"
  "getRedisPassword (test_env reply) = (\<lambda>h ns name key. ([], None))"
  "net_To4 (test_env reply) = (\<lambda>ip. ip \<noteq> [] \<and> CHR '':'' \<notin> set ip)"
  "redis_Process (test_env reply) = reply"
  "csv_ReadAll (test_env reply) = csv_plain"
  "generateK8sConfig (test_env reply) = (\<lambda>h. None)"
  "NewSPDYExecutor (test_env reply) = (\<lambda>h. None)"
  by (simp_all add: test_env_def)

lemma test_cr_sel:
  "cr_Name (test_cr leaders followers) = ''r''"
  "cr_Namespace (test_cr leaders followers) = ''ns''"
  "GetReplicaCounts (test_cr leaders followers) ''leader'' = leaders"
  "GetReplicaCounts (test_cr leaders followers) ''follower'' = followers"
  "ExistingPasswordSecret (test_cr leaders followers) = None"
  "TLS (test_cr leaders followers) = False"
  by (simp_all add: test_cr_def)

lemma unscheduled_env_sel:
  "pods_Get (unscheduled_env reply) =
     (\<lambda>h r. if PodName r = ''r-leader-0''
            then Inr \<lparr>PodIP = ''10.0.0.1'', Containers = [''r-leader'']\<rparr>
            else Inl (Error ''pods not found''))"
  "getRedisPassword (unscheduled_env reply) = (\<lambda>h ns name key. ([], None))"
  "net_To4 (unscheduled_env reply) = (\<lambda>ip. ip \<noteq> [] \<and> CHR '':'' \<notin> set ip)"
  "redis_Process (unscheduled_env reply) = reply"
  by (simp_all add: unscheduled_env_def test_env_def)

lemmas test_defs = test_env_sel test_cr_sel test_pods_def test_client_def test_pod_def
  configureRedisClient_def getRedisServerIP_def Process_def Itoa_def Itoa_nat.simps Let_def

section \<open>Forced failover: the fallback to flushall\<close>

text \<open>
  Claim C1, as the code has it. At every node of the loop of \<^verbatim>\<open>executeFailoverCommand\<close>
  where \<^verbatim>\<open>cluster reset\<close> fails, \<^verbatim>\<open>flushall\<close> is sent to the same client. If the flush
  fails, the loop returns the flush error and nothing more is sent. If the flush succeeds,
  \<^verbatim>\<open>cluster reset\<close> is sent a second time: its failure is returned as the error of the
  loop, its success lets the loop go on with the next node. An error returned by the loop
  over the leaders, or by the loop over the followers after it, is what
  \<^verbatim>\<open>ExecuteFailoverOperation\<close> returns.
\<close>

theorem executeFailoverCommand_reset_fallback:
  assumes "podCount \<le> replicas - 1"
    and "configureRedisClient e cr (podName @ Itoa podCount) h = (client, h1)"
    and "redis_Process e h1 client [''cluster'', ''reset''] = Inl err"
  shows "executeFailoverCommand_loop e cr podName replicas podCount h =
     (let reset = RedisCmd client [''cluster'', ''reset''];
          flush = RedisCmd client [''flushall'']
      in case redis_Process e (h1 @ [reset]) client [''flushall''] of
           Inl ferr \<Rightarrow> (Some ferr, h1 @ [reset, flush])
         | Inr v \<Rightarrow>
             (case redis_Process e (h1 @ [reset, flush]) client [''cluster'', ''reset''] of
                Inl rerr \<Rightarrow> (Some rerr, h1 @ [reset, flush, reset])
              | Inr output \<Rightarrow>
                  executeFailoverCommand_loop e cr podName replicas (podCount + 1)
                    (h1 @ [reset, flush, reset])))
     \<and> (\<forall>ferr h'. executeFailoverCommand e cr ''leader'' h0 = (Some ferr, h') \<longrightarrow>
            ExecuteFailoverOperation e cr h0 = (Some ferr, h'))
     \<and> (\<forall>ferr h' h''. executeFailoverCommand e cr ''leader'' h0 = (None, h') \<and>
            executeFailoverCommand e cr ''follower'' h' = (Some ferr, h'') \<longrightarrow>
            ExecuteFailoverOperation e cr h0 = (Some ferr, h''))"
proof (intro conjI allI impI)
  show "executeFailoverCommand_loop e cr podName replicas podCount h =
     (let reset = RedisCmd client [''cluster'', ''reset''];
          flush = RedisCmd client [''flushall'']
      in case redis_Process e (h1 @ [reset]) client [''flushall''] of
           Inl ferr \<Rightarrow> (Some ferr, h1 @ [reset, flush])
         | Inr v \<Rightarrow>
             (case redis_Process e (h1 @ [reset, flush]) client [''cluster'', ''reset''] of
                Inl rerr \<Rightarrow> (Some rerr, h1 @ [reset, flush, reset])
              | Inr output \<Rightarrow>
                  executeFailoverCommand_loop e cr podName replicas (podCount + 1)
                    (h1 @ [reset, flush, reset])))"
    using assms
    by (subst executeFailoverCommand_loop.simps)
       (simp add: executeFailoverCommand_body_def Process_def Let_def split: sum.splits)
next
  fix ferr h'
  assume "executeFailoverCommand e cr ''leader'' h0 = (Some ferr, h')"
  then show "ExecuteFailoverOperation e cr h0 = (Some ferr, h')"
    by (simp add: ExecuteFailoverOperation_def)
next
  fix ferr h' h''
  assume "executeFailoverCommand e cr ''leader'' h0 = (None, h') \<and>
          executeFailoverCommand e cr ''follower'' h' = (Some ferr, h'')"
  then show "ExecuteFailoverOperation e cr h0 = (Some ferr, h'')"
    by (simp add: ExecuteFailoverOperation_def)
qed

theorem executeFailoverCommand_reset_fallback_witness:
  "(0::int) \<le> 1 - 1 \<and>
   configureRedisClient (test_env reset_needs_flush) (test_cr 1 0) (''r-leader-'' @ Itoa 0) [] =
     (test_client ''r-leader-0'' ''10.0.0.1'', [PodGet (test_pod ''r-leader-0'')]) \<and>
   redis_Process (test_env reset_needs_flush) [PodGet (test_pod ''r-leader-0'')]
     (test_client ''r-leader-0'' ''10.0.0.1'') [''cluster'', ''reset'']
     = Inl (Error ''ERR CLUSTER RESET refused: the node holds keys'') \<and>
   executeFailoverCommand_loop (test_env reset_needs_flush) (test_cr 1 0) ''r-leader-'' 1 0 [] =
     (None, [PodGet (test_pod ''r-leader-0''),
             RedisCmd (test_client ''r-leader-0'' ''10.0.0.1'') [''cluster'', ''reset''],
             RedisCmd (test_client ''r-leader-0'' ''10.0.0.1'') [''flushall''],
             RedisCmd (test_client ''r-leader-0'' ''10.0.0.1'') [''cluster'', ''reset'']])"
proof -
  let ?e = "test_env reset_needs_flush"
  let ?p = "PodGet (test_pod ''r-leader-0'')"
  let ?c = "test_client ''r-leader-0'' ''10.0.0.1''"
  have a: "(0::int) \<le> 1 - 1" by simp
  have b: "configureRedisClient ?e (test_cr 1 0) (''r-leader-'' @ Itoa 0) [] = (?c, [?p])"
    by (simp add: test_defs)
  have c: "redis_Process ?e [?p] ?c [''cluster'', ''reset'']
             = Inl (Error ''ERR CLUSTER RESET refused: the node holds keys'')"
    by (simp add: test_env_sel reset_needs_flush_def)
  have d: "executeFailoverCommand_loop ?e (test_cr 1 0) ''r-leader-'' 1 1 H = (None, H)" for H
    by (simp add: executeFailoverCommand_loop.simps)
  have "executeFailoverCommand_loop ?e (test_cr 1 0) ''r-leader-'' 1 0 [] =
     (None, [?p, RedisCmd ?c [''cluster'', ''reset''], RedisCmd ?c [''flushall''],
             RedisCmd ?c [''cluster'', ''reset'']])"
    using executeFailoverCommand_reset_fallback [OF a b c, THEN conjunct1]
    by (simp add: d test_env_sel reset_needs_flush_def Let_def)
  with a b c show ?thesis by blast
qed

text \<open>
  Claim C1 as the specification words it fails: on a node whose reset keeps failing while
  the flush succeeds, the reset is sent twice and the operation returns the error of the
  second one.
\<close>

theorem executeFailoverCommand_second_reset_counterexample:
  "executeFailoverCommand (test_env reset_always_fails) (test_cr 1 0) ''leader'' [] =
     (Some (Error ''ERR CLUSTER RESET failed''),
      [PodGet (test_pod ''r-leader-0''),
       RedisCmd (test_client ''r-leader-0'' ''10.0.0.1'') [''cluster'', ''reset''],
       RedisCmd (test_client ''r-leader-0'' ''10.0.0.1'') [''flushall''],
       RedisCmd (test_client ''r-leader-0'' ''10.0.0.1'') [''cluster'', ''reset'']])"
  by (simp add: executeFailoverCommand_def executeFailoverCommand_loop.simps
      executeFailoverCommand_body_def test_defs reset_always_fails_def)

section \<open>Forced failover: leaders before followers\<close>

lemma only_pods_simps [simp]:
  "only_pods p []"
  "only_pods p (es @ fs) = (only_pods p es \<and> only_pods p fs)"
  "only_pods p (ev # es) = ((case event_pod ev of None \<Rightarrow> True | Some q \<Rightarrow> prefix p q) \<and> only_pods p es)"
  by (simp_all add: only_pods_def)

lemma getRedisServerIP_snd: "snd (getRedisServerIP e r h) = h @ [PodGet r]"
  by (simp add: getRedisServerIP_def Let_def)

lemma configureRedisClient_trace:
  "\<exists>es. snd (configureRedisClient e cr p h) = h @ es \<and> only_pods p es"
  by (simp add: configureRedisClient_def getRedisServerIP_def Let_def split: option.splits prod.splits)

lemma configureRedisClient_TLSFor:
  "TLSFor (fst (configureRedisClient e cr p h)) = \<lparr>PodName = p, Namespace = cr_Namespace cr\<rparr>"
  by (simp add: configureRedisClient_def getRedisServerIP_def Let_def split: option.splits prod.splits)

lemma executeFailoverCommand_body_trace:
  "\<exists>es. snd (executeFailoverCommand_body e cr podName podCount h) = h @ es \<and> only_pods podName es"
proof -
  obtain client h1 where c: "configureRedisClient e cr (podName @ Itoa podCount) h = (client, h1)"
    by (cases "configureRedisClient e cr (podName @ Itoa podCount) h")
  from configureRedisClient_trace [of e cr "podName @ Itoa podCount" h] c
  obtain es where es: "h1 = h @ es" "only_pods (podName @ Itoa podCount) es" by auto
  have t: "PodName (TLSFor client) = podName @ Itoa podCount"
    using configureRedisClient_TLSFor [of e cr "podName @ Itoa podCount" h] c by simp
  have m: "only_pods podName es"
    using es(2) unfolding only_pods_def list_all_iff
    by (auto split: option.splits dest: append_prefixD)
  show ?thesis
    using c es(1) m t
    by (auto simp: executeFailoverCommand_body_def Process_def Let_def split: sum.splits)
qed

lemma executeFailoverCommand_loop_trace:
  "\<exists>es. snd (executeFailoverCommand_loop e cr podName replicas podCount h) = h @ es
        \<and> only_pods podName es"
proof (induction e cr podName replicas podCount h rule: executeFailoverCommand_loop.induct)
  case (1 e cr podName replicas podCount h)
  show ?case
  proof (cases "podCount \<le> replicas - 1")
    case False
    then show ?thesis by (subst executeFailoverCommand_loop.simps) simp
  next
    case True
    obtain r h' where b: "executeFailoverCommand_body e cr podName podCount h = (r, h')"
      by (cases "executeFailoverCommand_body e cr podName podCount h")
    from executeFailoverCommand_body_trace [of e cr podName podCount h] b
    obtain es where es: "h' = h @ es" "only_pods podName es" by auto
    show ?thesis
    proof (cases r)
      case (Some err)
      with True b es show ?thesis by (subst executeFailoverCommand_loop.simps) simp
    next
      case None
      from "1.IH" [OF True b [symmetric] None]
      obtain fs where fs: "snd (executeFailoverCommand_loop e cr podName replicas (podCount + 1) h') = h' @ fs"
        "only_pods podName fs" by auto
      with True b es None show ?thesis by (subst executeFailoverCommand_loop.simps) simp
    qed
  qed
qed

lemma role_prefix_disjoint:
  assumes "prefix (n @ ''-leader-'') p"
  shows "\<not> prefix (n @ ''-follower-'') p"
proof
  assume "prefix (n @ ''-follower-'') p"
  with assms have "prefix (n @ ''-leader-'') (n @ ''-follower-'') \<or> prefix (n @ ''-follower-'') (n @ ''-leader-'')"
    using prefix_same_cases by blast
  then show False by simp
qed

lemma only_pods_leader_no_follower:
  "only_pods (cr_Name cr @ ''-leader-'') es \<Longrightarrow> list_all (\<lambda>ev. \<not> touches cr ''follower'' ev) es"
  unfolding only_pods_def touches_def list_all_iff
  by (auto split: option.splits dest: role_prefix_disjoint)

lemma only_pods_follower_no_leader:
  "only_pods (cr_Name cr @ ''-follower-'') es \<Longrightarrow> list_all (\<lambda>ev. \<not> touches cr ''leader'' ev) es"
  unfolding only_pods_def touches_def list_all_iff
  by (auto split: option.splits dest: role_prefix_disjoint)

text \<open>
  Claim C4. The trace of \<^verbatim>\<open>ExecuteFailoverOperation\<close> is the trace \<open>L\<close> of the whole leader
  loop followed by the trace \<open>F\<close> of the follower loop; no event of \<open>L\<close> names a follower
  pod and no event of \<open>F\<close> names a leader pod. When the leader loop returns an error, \<open>F\<close>
  is empty (nothing is sent to any follower) and the operation returns that error.
\<close>

theorem ExecuteFailoverOperation_leaders_first:
  "\<exists>L F. snd (executeFailoverCommand e cr ''leader'' h) = h @ L
       \<and> snd (ExecuteFailoverOperation e cr h) = h @ L @ F
       \<and> list_all (\<lambda>ev. \<not> touches cr ''follower'' ev) L
       \<and> list_all (\<lambda>ev. \<not> touches cr ''leader'' ev) F
       \<and> (\<forall>err. fst (executeFailoverCommand e cr ''leader'' h) = Some err
             \<longrightarrow> F = [] \<and> fst (ExecuteFailoverOperation e cr h) = Some err)"
proof -
  obtain r1 h1 where l: "executeFailoverCommand e cr ''leader'' h = (r1, h1)"
    by (cases "executeFailoverCommand e cr ''leader'' h")
  obtain r2 h2 where f: "executeFailoverCommand e cr ''follower'' h1 = (r2, h2)"
    by (cases "executeFailoverCommand e cr ''follower'' h1")
  from executeFailoverCommand_loop_trace
    [of e cr "cr_Name cr @ ''-leader-''" "GetReplicaCounts cr ''leader''" 0 h] l
  obtain L where L: "h1 = h @ L" "only_pods (cr_Name cr @ ''-leader-'') L"
    by (auto simp: executeFailoverCommand_def Let_def)
  from executeFailoverCommand_loop_trace
    [of e cr "cr_Name cr @ ''-follower-''" "GetReplicaCounts cr ''follower''" 0 h1] f
  obtain F where F: "h2 = h1 @ F" "only_pods (cr_Name cr @ ''-follower-'') F"
    by (auto simp: executeFailoverCommand_def Let_def)
  show ?thesis
  proof (cases r1)
    case (Some err)
    have "snd (ExecuteFailoverOperation e cr h) = h @ L @ []"
      using l L Some by (simp add: ExecuteFailoverOperation_def)
    moreover have "fst (ExecuteFailoverOperation e cr h) = Some err"
      using l Some by (simp add: ExecuteFailoverOperation_def)
    ultimately show ?thesis
      using l L Some only_pods_leader_no_follower [OF L(2)]
      by (intro exI [of _ L] exI [of _ "[]"]) simp
  next
    case None
    have "snd (ExecuteFailoverOperation e cr h) = h @ L @ F"
      using l f L F None by (simp add: ExecuteFailoverOperation_def split: option.splits)
    then show ?thesis
      using l L None only_pods_leader_no_follower [OF L(2)] only_pods_follower_no_leader [OF F(2)]
      by (intro exI [of _ L] exI [of _ F]) simp
  qed
qed


lemma leader1_down_leader_phase:
  "executeFailoverCommand (test_env leader1_down) (test_cr 2 1) ''leader'' [] =
     (Some (Error ''dial tcp 10.0.0.2:6379: i/o timeout''),
      [PodGet (test_pod ''r-leader-0''),
       RedisCmd (test_client ''r-leader-0'' ''10.0.0.1'') [''cluster'', ''reset''],
       RedisCmd (test_client ''r-leader-0'' ''10.0.0.1'') [''cluster'', ''reset''],
       PodGet (test_pod ''r-leader-1''),
       RedisCmd (test_client ''r-leader-1'' ''10.0.0.2'') [''cluster'', ''reset''],
       RedisCmd (test_client ''r-leader-1'' ''10.0.0.2'') [''flushall'']])"
  by (simp add: executeFailoverCommand_def executeFailoverCommand_loop.simps
      executeFailoverCommand_body_def test_defs leader1_down_def)

theorem ExecuteFailoverOperation_leaders_first_witness:
  "fst (executeFailoverCommand (test_env leader1_down) (test_cr 2 1) ''leader'' [])
     = Some (Error ''dial tcp 10.0.0.2:6379: i/o timeout'') \<and>
   ExecuteFailoverOperation (test_env leader1_down) (test_cr 2 1) [] =
     (Some (Error ''dial tcp 10.0.0.2:6379: i/o timeout''),
      [PodGet (test_pod ''r-leader-0''),
       RedisCmd (test_client ''r-leader-0'' ''10.0.0.1'') [''cluster'', ''reset''],
       RedisCmd (test_client ''r-leader-0'' ''10.0.0.1'') [''cluster'', ''reset''],
       PodGet (test_pod ''r-leader-1''),
       RedisCmd (test_client ''r-leader-1'' ''10.0.0.2'') [''cluster'', ''reset''],
       RedisCmd (test_client ''r-leader-1'' ''10.0.0.2'') [''flushall'']])"
proof -
  let ?e = "test_env leader1_down" and ?cr = "test_cr 2 1"
  let ?err = "Error ''dial tcp 10.0.0.2:6379: i/o timeout''"
  from ExecuteFailoverOperation_leaders_first [of ?e ?cr "[]"]
  obtain L F where
    L: "snd (executeFailoverCommand ?e ?cr ''leader'' []) = [] @ L" and
    T: "snd (ExecuteFailoverOperation ?e ?cr []) = [] @ L @ F" and
    A: "\<forall>err. fst (executeFailoverCommand ?e ?cr ''leader'' []) = Some err
          \<longrightarrow> F = [] \<and> fst (ExecuteFailoverOperation ?e ?cr []) = Some err"
    by blast
  have l: "fst (executeFailoverCommand ?e ?cr ''leader'' []) = Some ?err"
    by (simp add: leader1_down_leader_phase)
  with A have "F = []" "fst (ExecuteFailoverOperation ?e ?cr []) = Some ?err" by blast+
  with L T l show ?thesis
    by (simp add: leader1_down_leader_phase prod_eq_iff)
qed

section \<open>Reading node tables\<close>

lemma Split_not_Nil: "Split s sep \<noteq> []"
  by (induction s) (auto split: list.splits)

lemma Split_hd: "hd (Split s sep) = takeWhile (\<lambda>c. c \<noteq> sep) s"
  using Split_not_Nil by (induction s) (auto split: list.splits)

lemma CheckRedisClusterState_loop_count:
  "\<forall>node\<in>set clusterNodes. 7 < length node \<or> (2 < length node \<and> Contains (node ! 2) ''fail'') \<Longrightarrow>
   CheckRedisClusterState_loop clusterNodes count =
     Inr (count + int (length (filter (\<lambda>node. Contains (node ! 2) ''fail'' \<or>
                                              Contains (node ! 7) ''disconnected'') clusterNodes)))"
  by (induction clusterNodes arbitrary: count) auto

lemma CheckRedisClusterState_loop_panic:
  "\<exists>node\<in>set clusterNodes. \<not> (7 < length node \<or> (2 < length node \<and> Contains (node ! 2) ''fail'')) \<Longrightarrow>
   CheckRedisClusterState_loop clusterNodes count = Inl IndexOutOfRange"
  by (induction clusterNodes arbitrary: count) auto

lemma getNodeIds_loop_total:
  "getNodeIds_loop records nodeIds =
     (if \<forall>record\<in>set records. 0 < length record
      then Inr (nodeIds @ map (\<lambda>record. record ! 0) records)
      else Inl IndexOutOfRange)"
  by (induction records arbitrary: nodeIds) auto

lemma CheckRedisNodeCount_loop_total:
  "CheckRedisNodeCount_loop clusterNodes redisNodeType count =
     (if \<forall>node\<in>set clusterNodes. 2 < length node
      then Inr (count + int (length (filter (\<lambda>node. Contains (node ! 2) redisNodeType) clusterNodes)))
      else Inl IndexOutOfRange)"
  by (induction clusterNodes arbitrary: count) auto

lemma checkRedisNodePresence_Cons:
  "checkRedisNodePresence (node # nodeList) nodeName =
     (if 1 < length node then
        (if ip_portion node = nodeName then Inr True else checkRedisNodePresence nodeList nodeName)
      else Inl IndexOutOfRange)"
proof -
  have "Split (node ! 1) CHR '':'' = hd (Split (node ! 1) CHR '':'') # tl (Split (node ! 1) CHR '':'')"
    using Split_not_Nil by simp
  then obtain s where s: "Split (node ! 1) CHR '':'' = ip_portion node # s"
    by (simp add: Split_hd ip_portion_def)
  then show ?thesis by simp
qed

lemma checkRedisNodePresence_total:
  "checkRedisNodePresence nodeList nodeName =
     (case dropWhile (\<lambda>node. 1 < length node \<and> ip_portion node \<noteq> nodeName) nodeList of
        [] \<Rightarrow> Inr False
      | node # rest \<Rightarrow> if 1 < length node then Inr True else Inl IndexOutOfRange)"
  by (induction nodeList) (simp_all add: checkRedisNodePresence_Cons del: checkRedisNodePresence.simps(2))


lemma CheckRedisClusterState_loop_total:
  "CheckRedisClusterState_loop clusterNodes count =
     (if \<forall>node\<in>set clusterNodes. 7 < length node \<or> (2 < length node \<and> Contains (node ! 2) ''fail'')
      then Inr (count + int (length (filter (\<lambda>node. Contains (node ! 2) ''fail'' \<or>
                                        Contains (node ! 7) ''disconnected'') clusterNodes)))
      else Inl IndexOutOfRange)"
  using CheckRedisClusterState_loop_count [of clusterNodes count]
    CheckRedisClusterState_loop_panic [of clusterNodes count]
  by auto

lemmas table_defs = checkRedisCluster_def nodes_reply_def csv_plain_def
  two_masters_one_failed_def truncated_failed_row_def malformed_response_def

text \<open>
  Claim C7. On a node table whose rows have the eight fixed fields of a node table row,
  \<^verbatim>\<open>CheckRedisClusterState\<close> returns the number of rows whose field 2 contains \<^verbatim>\<open>fail\<close> or
  whose field 7 contains \<^verbatim>\<open>disconnected\<close>; a row with both is one element of the filtered
  list and is counted once. On any table at all, a number that it returns is that number.
\<close>

theorem CheckRedisClusterState_counts_unhealthy:
  assumes "checkRedisCluster e cr h = (clusterNodes, h1)"
  shows "((\<forall>node\<in>set clusterNodes. 8 \<le> length node) \<longrightarrow>
           CheckRedisClusterState e cr h =
             (Inr (int (length (filter (\<lambda>node. Contains (node ! 2) ''fail'' \<or>
                                  Contains (node ! 7) ''disconnected'') clusterNodes))), h1))
       \<and> (\<forall>n. fst (CheckRedisClusterState e cr h) = Inr n \<longrightarrow>
            n = int (length (filter (\<lambda>node. Contains (node ! 2) ''fail'' \<or>
                                  Contains (node ! 7) ''disconnected'') clusterNodes)))"
proof (intro conjI impI allI)
  assume "\<forall>node\<in>set clusterNodes. 8 \<le> length node"
  then have "\<forall>node\<in>set clusterNodes.
               7 < length node \<or> (2 < length node \<and> Contains (node ! 2) ''fail'')"
    by auto
  from CheckRedisClusterState_loop_count [OF this, of 0] assms
  show "CheckRedisClusterState e cr h =
             (Inr (int (length (filter (\<lambda>node. Contains (node ! 2) ''fail'' \<or>
                                  Contains (node ! 7) ''disconnected'') clusterNodes))), h1)"
    by (simp add: CheckRedisClusterState_def)
next
  fix n
  assume "fst (CheckRedisClusterState e cr h) = Inr n"
  then have "CheckRedisClusterState_loop clusterNodes 0 = Inr n"
    using assms by (simp add: CheckRedisClusterState_def)
  then show "n = int (length (filter (\<lambda>node. Contains (node ! 2) ''fail'' \<or>
                                  Contains (node ! 7) ''disconnected'') clusterNodes))"
    by (subst (asm) CheckRedisClusterState_loop_total) (simp split: if_splits)
qed

lemma two_masters_one_failed_table:
  "checkRedisCluster (test_env (nodes_reply two_masters_one_failed)) (test_cr 2 0) [] =
     ([[''id1'', ''10.0.0.1:6379@16379'', ''master'', ''-'', ''0'', ''0'', ''1'', ''connected'', ''0-5460''],
       [''id2'', ''10.0.0.2:6379@16379'', ''master,fail'', ''-'', ''0'', ''0'', ''2'', ''connected'']],
      [PodGet (test_pod ''r-leader-0''),
       RedisCmd (test_client ''r-leader-0'' ''10.0.0.1'') [''cluster'', ''nodes'']])"
  by (simp add: table_defs test_defs)

theorem CheckRedisClusterState_counts_unhealthy_witness:
  "CheckRedisClusterState (test_env (nodes_reply two_masters_one_failed)) (test_cr 2 0) [] =
     (Inr 1, [PodGet (test_pod ''r-leader-0''),
              RedisCmd (test_client ''r-leader-0'' ''10.0.0.1'') [''cluster'', ''nodes'']])"
proof -
  let ?t = "[[''id1'', ''10.0.0.1:6379@16379'', ''master'', ''-'', ''0'', ''0'', ''1'', ''connected'', ''0-5460''],
       [''id2'', ''10.0.0.2:6379@16379'', ''master,fail'', ''-'', ''0'', ''0'', ''2'', ''connected'']]"
  have "\<forall>node\<in>set ?t. 8 \<le> length node" by simp
  with CheckRedisClusterState_counts_unhealthy [OF two_masters_one_failed_table, THEN conjunct1]
  show ?thesis by simp
qed

lemma le_length_conv:
  "(1 \<le> length r) = (0 < length r)" "(2 \<le> length r) = (1 < length r)"
  "(3 \<le> length r) = (2 < length r)" "(8 \<le> length r) = (7 < length r)"
  by linarith+

text \<open>
  Claim C10, as the code has it. The four loops index the rows without a length check and
  panic exactly when they evaluate a field that a row does not have: \<^verbatim>\<open>getNodeIds\<close> on a
  row without fields; \<^verbatim>\<open>checkRedisNodePresence\<close> on a row of fewer than two fields that
  comes before any matching row (the loop returns at the first match);
  \<^verbatim>\<open>CheckRedisNodeCount\<close> (with a role filter) on a row of fewer than three fields;
  \<^verbatim>\<open>CheckRedisClusterState\<close> on a row of fewer than three fields, or of fewer than eight
  whose field 2 does not contain \<^verbatim>\<open>fail\<close> (otherwise field 7 is not evaluated). In every
  other case they return their result.
\<close>

theorem node_table_indexing:
  "getNodeIds_loop records [] =
     (if \<forall>record\<in>set records. 1 \<le> length record
      then Inr (map (\<lambda>record. record ! 0) records) else Inl IndexOutOfRange)
   \<and> checkRedisNodePresence nodeList nodeName =
     (case dropWhile (\<lambda>node. 2 \<le> length node \<and> ip_portion node \<noteq> nodeName) nodeList of
        [] \<Rightarrow> Inr False
      | node # rest \<Rightarrow> if 2 \<le> length node then Inr True else Inl IndexOutOfRange)
   \<and> CheckRedisNodeCount_loop clusterNodes redisNodeType 0 =
     (if \<forall>node\<in>set clusterNodes. 3 \<le> length node
      then Inr (int (length (filter (\<lambda>node. Contains (node ! 2) redisNodeType) clusterNodes)))
      else Inl IndexOutOfRange)
   \<and> CheckRedisClusterState_loop clusterNodes 0 =
     (if \<forall>node\<in>set clusterNodes.
           8 \<le> length node \<or> (3 \<le> length node \<and> Contains (node ! 2) ''fail'')
      then Inr (int (length (filter (\<lambda>node. Contains (node ! 2) ''fail'' \<or>
                                  Contains (node ! 7) ''disconnected'') clusterNodes)))
      else Inl IndexOutOfRange)"
proof (intro conjI)
  show "getNodeIds_loop records [] =
     (if \<forall>record\<in>set records. 1 \<le> length record
      then Inr (map (\<lambda>record. record ! 0) records) else Inl IndexOutOfRange)"
    unfolding le_length_conv by (subst getNodeIds_loop_total) auto
  show "checkRedisNodePresence nodeList nodeName =
     (case dropWhile (\<lambda>node. 2 \<le> length node \<and> ip_portion node \<noteq> nodeName) nodeList of
        [] \<Rightarrow> Inr False
      | node # rest \<Rightarrow> if 2 \<le> length node then Inr True else Inl IndexOutOfRange)"
    unfolding le_length_conv by (rule checkRedisNodePresence_total)
  show "CheckRedisNodeCount_loop clusterNodes redisNodeType 0 =
     (if \<forall>node\<in>set clusterNodes. 3 \<le> length node
      then Inr (int (length (filter (\<lambda>node. Contains (node ! 2) redisNodeType) clusterNodes)))
      else Inl IndexOutOfRange)"
    unfolding le_length_conv by (subst CheckRedisNodeCount_loop_total) auto
  show "CheckRedisClusterState_loop clusterNodes 0 =
     (if \<forall>node\<in>set clusterNodes.
           8 \<le> length node \<or> (3 \<le> length node \<and> Contains (node ! 2) ''fail'')
      then Inr (int (length (filter (\<lambda>node. Contains (node ! 2) ''fail'' \<or>
                                  Contains (node ! 7) ''disconnected'') clusterNodes)))
      else Inl IndexOutOfRange)"
    unfolding le_length_conv by (subst CheckRedisClusterState_loop_total) auto
qed

theorem node_table_indexing_witness:
  "getNodeIds_loop [[''id1'', ''10.0.0.1:6379@16379''], []] [] = Inl IndexOutOfRange
   \<and> checkRedisNodePresence [[''id1'', ''10.0.0.1:6379@16379''], [''id2'']] ''10.0.0.1'' = Inr True
   \<and> CheckRedisNodeCount_loop [[''id1'', ''10.0.0.1:6379@16379'', ''master''], [''id2'']] ''master'' 0
       = Inl IndexOutOfRange
   \<and> CheckRedisClusterState_loop
       [[''id1'', ''10.0.0.1:6379@16379'', ''master'', ''-'', ''0'', ''0'', ''1'', ''disconnected'']] 0
       = Inr 1"
  using node_table_indexing
     [of "[[''id1'', ''10.0.0.1:6379@16379''], []]"
         "[[''id1'', ''10.0.0.1:6379@16379''], [''id2'']]" "''10.0.0.1''"
         "[[''id1'', ''10.0.0.1:6379@16379'', ''master'', ''-'', ''0'', ''0'', ''1'', ''disconnected'']]"
         "''master''"]
  by (simp add: ip_portion_def)

text \<open>
  Claim C10 as worded fails: a table with a row shorter than eight fields does not always
  make the indexing go out of range. The truncated row below has three fields and is
  counted as unhealthy.
\<close>

theorem CheckRedisClusterState_short_row_counterexample:
  "fst (checkRedisCluster (test_env (nodes_reply truncated_failed_row)) (test_cr 1 0) []) =
     [[''id2'', ''10.0.0.2:6379@16379'', ''master,fail'']]
   \<and> fst (CheckRedisClusterState (test_env (nodes_reply truncated_failed_row)) (test_cr 1 0) []) = Inr 1"
  by (simp add: CheckRedisClusterState_def table_defs test_defs)

section \<open>The topology read never fails\<close>

text \<open>
  Claim C2, as the code has it. \<^verbatim>\<open>checkRedisCluster\<close> reads the response with a CSV reader
  that accepts any number of fields per record and returns the records as they are,
  whatever their lengths. It has no error result: when the response cannot be parsed (and
  likewise when the command failed, which leaves the empty string as output) the error is
  logged and the caller receives the empty node table. Only \<^verbatim>\<open>getNodeIds\<close> returns the parse
  error.
\<close>

theorem checkRedisCluster_never_fails:
  assumes "configureRedisClient e cr (cr_Name cr @ ''-leader-0'') h = (client, h1)"
    and "output = (case redis_Process e h1 client [''cluster'', ''nodes''] of
                     Inl err \<Rightarrow> [] | Inr v \<Rightarrow> v)"
  shows "(\<forall>records. csv_ReadAll e CHR '' '' (- 1) output = Inr records \<longrightarrow>
            checkRedisCluster e cr h = (records, h1 @ [RedisCmd client [''cluster'', ''nodes'']]))
       \<and> (\<forall>perr. csv_ReadAll e CHR '' '' (- 1) output = Inl perr \<longrightarrow>
            checkRedisCluster e cr h = ([], h1 @ [RedisCmd client [''cluster'', ''nodes'']])
            \<and> getNodeIds e output = Inr (Inl perr))"
  using assms
  by (simp add: checkRedisCluster_def getNodeIds_def Process_def Let_def split: sum.splits)

theorem checkRedisCluster_never_fails_witness:
  "checkRedisCluster (test_env (nodes_reply two_masters_one_failed)) (test_cr 2 0) [] =
     ([[''id1'', ''10.0.0.1:6379@16379'', ''master'', ''-'', ''0'', ''0'', ''1'', ''connected'', ''0-5460''],
       [''id2'', ''10.0.0.2:6379@16379'', ''master,fail'', ''-'', ''0'', ''0'', ''2'', ''connected'']],
      [PodGet (test_pod ''r-leader-0''),
       RedisCmd (test_client ''r-leader-0'' ''10.0.0.1'') [''cluster'', ''nodes'']])"
proof -
  let ?e = "test_env (nodes_reply two_masters_one_failed)"
  let ?c = "test_client ''r-leader-0'' ''10.0.0.1''"
  let ?t = "[[''id1'', ''10.0.0.1:6379@16379'', ''master'', ''-'', ''0'', ''0'', ''1'', ''connected'', ''0-5460''],
       [''id2'', ''10.0.0.2:6379@16379'', ''master,fail'', ''-'', ''0'', ''0'', ''2'', ''connected'']]"
  have a: "configureRedisClient ?e (test_cr 2 0) (cr_Name (test_cr 2 0) @ ''-leader-0'') [] =
             (?c, [PodGet (test_pod ''r-leader-0'')])"
    by (simp add: test_defs)
  have b: "two_masters_one_failed =
             (case redis_Process ?e [PodGet (test_pod ''r-leader-0'')] ?c [''cluster'', ''nodes''] of
                Inl err \<Rightarrow> [] | Inr v \<Rightarrow> v)"
    by (simp add: test_env_sel nodes_reply_def)
  have c: "csv_ReadAll ?e CHR '' '' (- 1) two_masters_one_failed = Inr ?t"
    by (simp add: test_env_sel csv_plain_def two_masters_one_failed_def)
  from checkRedisCluster_never_fails [OF a b] c show ?thesis by simp
qed

text \<open>
  Claim C2 as worded fails: for a response that the reader rejects, the caller gets the
  empty node table, and the health check built on it reports no unhealthy node.
\<close>

theorem checkRedisCluster_malformed_counterexample:
  "csv_ReadAll (test_env (nodes_reply malformed_response)) CHR '' '' (- 1) malformed_response =
     Inl (Error ''parse error: bare quote in non-quoted field'')
   \<and> checkRedisCluster (test_env (nodes_reply malformed_response)) (test_cr 1 0) [] =
     ([], [PodGet (test_pod ''r-leader-0''),
           RedisCmd (test_client ''r-leader-0'' ''10.0.0.1'') [''cluster'', ''nodes'']])
   \<and> fst (CheckRedisClusterState (test_env (nodes_reply malformed_response)) (test_cr 1 0) []) = Inr 0"
  by (simp add: CheckRedisClusterState_def table_defs test_defs)

section \<open>Address resolution never fails\<close>

text \<open>
  Claim C3, as the code has it. \<^verbatim>\<open>getRedisServerIP\<close> has no error result. When the pod
  lookup fails, the error is logged and the address is formatted from the empty pod IP
  (the empty string is not an IPv4 address, so the result is \<^verbatim>\<open>[]\<close>); the enclosing
  operation goes on with that address, as the mesh rebuild does here: it sends
  \<^verbatim>\<open>cluster meet\<close> with it and moves to the next ordinal.
\<close>

theorem getRedisServerIP_failure_not_surfaced:
  assumes "pods_Get e h \<lparr>PodName = podName @ Itoa podCount, Namespace = cr_Namespace cr\<rparr> = Inl err"
    and "podCount \<le> count - 1"
    and "ip = (if net_To4 e [] then [] else ''[]'')"
  shows "getRedisServerIP e \<lparr>PodName = podName @ Itoa podCount, Namespace = cr_Namespace cr\<rparr> h =
           (ip, h @ [PodGet \<lparr>PodName = podName @ Itoa podCount, Namespace = cr_Namespace cr\<rparr>])
       \<and> executeMasterClusterCreation_inner e cr podName client count podCount h =
           executeMasterClusterCreation_inner e cr podName client count (podCount + 1)
             (h @ [PodGet \<lparr>PodName = podName @ Itoa podCount, Namespace = cr_Namespace cr\<rparr>,
                   RedisCmd client [''cluster'', ''meet'', ip, ''6379'']])"
proof -
  have g: "getRedisServerIP e \<lparr>PodName = podName @ Itoa podCount, Namespace = cr_Namespace cr\<rparr> h =
           (ip, h @ [PodGet \<lparr>PodName = podName @ Itoa podCount, Namespace = cr_Namespace cr\<rparr>])"
    using assms(1,3) by (simp add: getRedisServerIP_def empty_pod_def)
  show ?thesis
    using g assms(2)
    by (subst executeMasterClusterCreation_inner.simps) (simp add: Process_def)
qed

theorem getRedisServerIP_failure_not_surfaced_witness:
  "executeMasterClusterCreation_inner (unscheduled_env meet_rejects_empty) (test_cr 2 0)
     ''r-leader-'' (test_client ''r-leader-0'' ''10.0.0.1'') 2 1 [] =
     [PodGet (test_pod ''r-leader-1''),
      RedisCmd (test_client ''r-leader-0'' ''10.0.0.1'') [''cluster'', ''meet'', ''[]'', ''6379'']]"
proof -
  let ?e = "unscheduled_env meet_rejects_empty"
  have a: "pods_Get ?e [] \<lparr>PodName = ''r-leader-'' @ Itoa 1, Namespace = cr_Namespace (test_cr 2 0)\<rparr>
             = Inl (Error ''pods not found'')"
    by (simp add: unscheduled_env_sel test_defs)
  have b: "(1::int) \<le> 2 - 1" by simp
  have c: "''[]'' = (if net_To4 ?e [] then [] else ''[]'')"
    by (simp add: unscheduled_env_sel)
  have d: "executeMasterClusterCreation_inner ?e (test_cr 2 0) ''r-leader-'' cl 2 2 H = H" for cl H
    by (simp add: executeMasterClusterCreation_inner.simps)
  have n: "\<lparr>PodName = ''r-leader-'' @ Itoa 1, Namespace = cr_Namespace (test_cr 2 0)\<rparr>
             = test_pod ''r-leader-1''"
    by (simp add: test_defs)
  from getRedisServerIP_failure_not_surfaced [OF a b c, of "test_client ''r-leader-0'' ''10.0.0.1''"]
  show ?thesis unfolding n by (simp add: d)
qed

text \<open>
  Claim C3 as worded fails: with the second leader unresolvable, the mesh rebuild neither
  stops nor reports an error; it sends \<^verbatim>\<open>cluster meet\<close> with the address \<^verbatim>\<open>[]\<close>.
\<close>

theorem executeMasterClusterCreation_unresolved_counterexample:
  "pods_Get (unscheduled_env meet_rejects_empty) [PodGet (test_pod ''r-leader-0'')]
     (test_pod ''r-leader-1'') = Inl (Error ''pods not found'')
   \<and> executeMasterClusterCreation (unscheduled_env meet_rejects_empty) (test_cr 2 0) [] =
     [PodGet (test_pod ''r-leader-0''), PodGet (test_pod ''r-leader-1''),
      RedisCmd (test_client ''r-leader-0'' ''10.0.0.1'') [''cluster'', ''meet'', ''[]'', ''6379'']]"
  by (simp add: executeMasterClusterCreation_def executeMasterClusterCreation_outer.simps
      executeMasterClusterCreation_inner.simps unscheduled_env_sel test_defs empty_pod_def)

section \<open>Graceful recovery: the mesh rebuild\<close>

lemma redis_cmds_append [simp]: "redis_cmds (es @ fs) = redis_cmds es @ redis_cmds fs"
  by (induction es rule: redis_cmds.induct) simp_all

lemma getRedisServerIP_stable:
  assumes "\<And>h r. fst (getRedisServerIP e r h) = addr r"
  shows "getRedisServerIP e r h = (addr r, h @ [PodGet r])"
  using assms [of r h] getRedisServerIP_snd [of e r h] by (simp add: prod_eq_iff)

lemma configureRedisClient_stable:
  assumes "\<And>h r. fst (getRedisServerIP e r h) = addr r"
  shows "\<exists>c es. configureRedisClient e cr p h = (c, h @ es) \<and> redis_cmds es = []
           \<and> TLSFor c = \<lparr>PodName = p, Namespace = cr_Namespace cr\<rparr>
           \<and> Addr c = addr \<lparr>PodName = p, Namespace = cr_Namespace cr\<rparr> @ '':6379''"
  by (simp add: configureRedisClient_def getRedisServerIP_stable [OF assms] Let_def
      split: option.splits prod.splits)

lemma executeMasterClusterCreation_inner_cmds:
  assumes "\<And>h r. fst (getRedisServerIP e r h) = addr r"
  shows "\<exists>es. executeMasterClusterCreation_inner e cr podName client count podCount h = h @ es
          \<and> redis_cmds es =
              map (\<lambda>j. (TLSFor client, Addr client,
                         [''cluster'', ''meet'',
                          addr \<lparr>PodName = podName @ Itoa j, Namespace = cr_Namespace cr\<rparr>, ''6379'']))
                [podCount..count - 1]"
  using assms
proof (induction e cr podName client count podCount h
    rule: executeMasterClusterCreation_inner.induct)
  case (1 e cr podName client count podCount h)
  note stab = getRedisServerIP_stable [of e addr, OF "1.prems"]
  show ?case
  proof (cases "podCount \<le> count - 1")
    case False
    then show ?thesis by (subst executeMasterClusterCreation_inner.simps) simp
  next
    case True
    let ?pod = "\<lparr>PodName = podName @ Itoa podCount, Namespace = cr_Namespace cr\<rparr>"
    let ?cmd = "[''cluster'', ''meet'', addr ?pod, ''6379'']"
    let ?h2 = "h @ [PodGet ?pod, RedisCmd client ?cmd]"
    have p: "Process e client ?cmd (h @ [PodGet ?pod]) = (redis_Process e (h @ [PodGet ?pod]) client ?cmd, ?h2)"
      by (simp add: Process_def)
    have "\<exists>es. executeMasterClusterCreation_inner e cr podName client count (podCount + 1) ?h2
             = ?h2 @ es \<and>
      redis_cmds es =
         map (\<lambda>j. (TLSFor client, Addr client,
                    [''cluster'', ''meet'',
                     addr \<lparr>PodName = podName @ Itoa j, Namespace = cr_Namespace cr\<rparr>, ''6379'']))
           [podCount + 1..count - 1]"
      by (rule "1.IH") (insert True, simp_all add: stab Process_def "1.prems")
    then obtain es where es:
      "executeMasterClusterCreation_inner e cr podName client count (podCount + 1) ?h2 = ?h2 @ es"
      "redis_cmds es =
         map (\<lambda>j. (TLSFor client, Addr client,
                    [''cluster'', ''meet'',
                     addr \<lparr>PodName = podName @ Itoa j, Namespace = cr_Namespace cr\<rparr>, ''6379'']))
           [podCount + 1..count - 1]"
      by auto
    have "executeMasterClusterCreation_inner e cr podName client count podCount h
            = h @ ([PodGet ?pod, RedisCmd client ?cmd] @ es)"
      using True es(1)
      by (subst executeMasterClusterCreation_inner.simps) (simp add: stab Process_def Let_def)
    moreover have "redis_cmds ([PodGet ?pod, RedisCmd client ?cmd] @ es) =
         map (\<lambda>j. (TLSFor client, Addr client,
                    [''cluster'', ''meet'',
                     addr \<lparr>PodName = podName @ Itoa j, Namespace = cr_Namespace cr\<rparr>, ''6379'']))
           [podCount..count - 1]"
      using True es(2) by (subst upto_rec1 [of podCount]) simp_all
    ultimately show ?thesis by blast
  qed
qed


lemma executeMasterClusterCreation_outer_cmds:
  assumes "\<And>h r. fst (getRedisServerIP e r h) = addr r"
  shows "\<exists>es. executeMasterClusterCreation_outer e cr podName count rootPod h = h @ es
          \<and> redis_cmds es =
              concat (map (\<lambda>i. map (\<lambda>j.
                  (\<lparr>PodName = podName @ Itoa i, Namespace = cr_Namespace cr\<rparr>,
                   addr \<lparr>PodName = podName @ Itoa i, Namespace = cr_Namespace cr\<rparr> @ '':6379'',
                   [''cluster'', ''meet'',
                    addr \<lparr>PodName = podName @ Itoa j, Namespace = cr_Namespace cr\<rparr>, ''6379'']))
                  [i + 1..count - 1]) [rootPod..count - 2])"
  using assms
proof (induction e cr podName count rootPod h rule: executeMasterClusterCreation_outer.induct)
  case (1 e cr podName count rootPod h)
  show ?case
  proof (cases "rootPod \<le> count - 2")
    case False
    then show ?thesis by (subst executeMasterClusterCreation_outer.simps) simp
  next
    case True
    let ?pod = "\<lparr>PodName = podName @ Itoa rootPod, Namespace = cr_Namespace cr\<rparr>"
    from configureRedisClient_stable [of e addr cr "podName @ Itoa rootPod" h, OF "1.prems"]
    obtain client cs where c:
      "configureRedisClient e cr (podName @ Itoa rootPod) h = (client, h @ cs)"
      "redis_cmds cs = []" "TLSFor client = ?pod" "Addr client = addr ?pod @ '':6379''"
      by blast
    from executeMasterClusterCreation_inner_cmds
      [of e addr cr podName client count "rootPod + 1" "h @ cs", OF "1.prems"]
    obtain ms where m:
      "executeMasterClusterCreation_inner e cr podName client count (rootPod + 1) (h @ cs)
         = (h @ cs) @ ms"
      "redis_cmds ms =
         map (\<lambda>j. (TLSFor client, Addr client,
                    [''cluster'', ''meet'',
                     addr \<lparr>PodName = podName @ Itoa j, Namespace = cr_Namespace cr\<rparr>, ''6379'']))
           [rootPod + 1..count - 1]"
      by blast
    have "\<exists>es. executeMasterClusterCreation_outer e cr podName count (rootPod + 1) ((h @ cs) @ ms)
               = ((h @ cs) @ ms) @ es
          \<and> redis_cmds es =
              concat (map (\<lambda>i. map (\<lambda>j.
                  (\<lparr>PodName = podName @ Itoa i, Namespace = cr_Namespace cr\<rparr>,
                   addr \<lparr>PodName = podName @ Itoa i, Namespace = cr_Namespace cr\<rparr> @ '':6379'',
                   [''cluster'', ''meet'',
                    addr \<lparr>PodName = podName @ Itoa j, Namespace = cr_Namespace cr\<rparr>, ''6379'']))
                  [i + 1..count - 1]) [rootPod + 1..count - 2])"
      by (rule "1.IH" [OF True refl c(1) [symmetric] m(1) [symmetric] "1.prems"])
    then obtain es where es:
      "executeMasterClusterCreation_outer e cr podName count (rootPod + 1) ((h @ cs) @ ms)
               = ((h @ cs) @ ms) @ es"
      "redis_cmds es =
              concat (map (\<lambda>i. map (\<lambda>j.
                  (\<lparr>PodName = podName @ Itoa i, Namespace = cr_Namespace cr\<rparr>,
                   addr \<lparr>PodName = podName @ Itoa i, Namespace = cr_Namespace cr\<rparr> @ '':6379'',
                   [''cluster'', ''meet'',
                    addr \<lparr>PodName = podName @ Itoa j, Namespace = cr_Namespace cr\<rparr>, ''6379'']))
                  [i + 1..count - 1]) [rootPod + 1..count - 2])"
      by blast
    have "executeMasterClusterCreation_outer e cr podName count rootPod h = h @ (cs @ ms @ es)"
      using True c(1) m(1) es(1)
      by (subst executeMasterClusterCreation_outer.simps) (simp add: Let_def)
    moreover have "redis_cmds (cs @ ms @ es) =
              concat (map (\<lambda>i. map (\<lambda>j.
                  (\<lparr>PodName = podName @ Itoa i, Namespace = cr_Namespace cr\<rparr>,
                   addr \<lparr>PodName = podName @ Itoa i, Namespace = cr_Namespace cr\<rparr> @ '':6379'',
                   [''cluster'', ''meet'',
                    addr \<lparr>PodName = podName @ Itoa j, Namespace = cr_Namespace cr\<rparr>, ''6379'']))
                  [i + 1..count - 1]) [rootPod..count - 2])"
      using True c(2-4) m(2) es(2) by (subst upto_rec1 [of rootPod]) simp_all
    ultimately show ?thesis by blast
  qed
qed

lemma set_meet_pairs: "set (meet_pairs n) = {(i, j). 0 \<le> i \<and> i < j \<and> j \<le> n - 1}"
proof -
  have "(i, j) \<in> set (meet_pairs n) \<longleftrightarrow> 0 \<le> i \<and> i < j \<and> j \<le> n - 1" for i j
  proof -
    have "(i, j) \<in> set (meet_pairs n) \<longleftrightarrow> (\<exists>x\<in>{0..n - 2}. i = x \<and> j \<in> {x + 1..n - 1})"
      by (simp add: meet_pairs_def image_iff)
    also have "\<dots> \<longleftrightarrow> 0 \<le> i \<and> i < j \<and> j \<le> n - 1"
      by auto
    finally show ?thesis .
  qed
  then show ?thesis by auto
qed

lemma sorted_wrt_concat_map:
  "sorted_wrt R xs \<Longrightarrow> \<forall>x\<in>set xs. sorted_wrt S (f x) \<Longrightarrow>
   \<forall>x\<in>set xs. \<forall>y\<in>set xs. R x y \<longrightarrow> (\<forall>a\<in>set (f x). \<forall>b\<in>set (f y). S a b) \<Longrightarrow>
   sorted_wrt S (concat (map f xs))"
  by (induction xs) (auto simp: sorted_wrt_append)

lemma sorted_meet_pairs:
  "sorted_wrt (\<lambda>(i, j) (k, l). i < k \<or> (i = k \<and> j < l)) (meet_pairs n)"
  unfolding meet_pairs_def
  by (rule sorted_wrt_concat_map [where R = "(<)"]) (auto simp: sorted_wrt_map)

lemma sorted_wrt_irrefl_distinct:
  "sorted_wrt R xs \<Longrightarrow> (\<And>x. \<not> R x x) \<Longrightarrow> distinct xs"
  by (induction xs) auto

lemma distinct_meet_pairs: "distinct (meet_pairs n)"
  by (rule sorted_wrt_irrefl_distinct [OF sorted_meet_pairs]) auto


text \<open>
  Claim C6. Provided every pod resolves to one address throughout the call, the Redis
  commands sent by \<^verbatim>\<open>executeMasterClusterCreation\<close> are exactly one \<^verbatim>\<open>cluster meet\<close> per
  pair of \<open>meet_pairs N\<close>, in that order, each sent by the client configured for leader \<open>i\<close>
  (connected to the address of leader \<open>i\<close>) with the address of leader \<open>j\<close> as target. The
  list \<open>meet_pairs N\<close> holds every pair \<open>0 \<le> i < j \<le> N - 1\<close>, holds none twice, and is
  strictly ascending in the lexicographic order.
\<close>

theorem executeMasterClusterCreation_meets:
  assumes "\<And>h r. fst (getRedisServerIP e r h) = addr r"
  shows "(\<exists>es. executeMasterClusterCreation e cr h = h @ es
           \<and> redis_cmds es =
               map (\<lambda>(i, j). (pod_of cr ''leader'' i,
                               addr (pod_of cr ''leader'' i) @ '':6379'',
                               [''cluster'', ''meet'', addr (pod_of cr ''leader'' j), ''6379'']))
                 (meet_pairs (GetReplicaCounts cr ''leader'')))
       \<and> set (meet_pairs (GetReplicaCounts cr ''leader'')) =
           {(i, j). 0 \<le> i \<and> i < j \<and> j \<le> GetReplicaCounts cr ''leader'' - 1}
       \<and> distinct (meet_pairs (GetReplicaCounts cr ''leader''))
       \<and> sorted_wrt (\<lambda>(i, j) (k, l). i < k \<or> (i = k \<and> j < l))
           (meet_pairs (GetReplicaCounts cr ''leader''))"
proof -
  from executeMasterClusterCreation_outer_cmds
    [of e addr cr "cr_Name cr @ ''-leader-''" "GetReplicaCounts cr ''leader''" 0 h, OF assms]
  obtain es where es:
    "executeMasterClusterCreation_outer e cr (cr_Name cr @ ''-leader-'')
       (GetReplicaCounts cr ''leader'') 0 h = h @ es"
    "redis_cmds es =
       concat (map (\<lambda>i. map (\<lambda>j.
           (\<lparr>PodName = (cr_Name cr @ ''-leader-'') @ Itoa i, Namespace = cr_Namespace cr\<rparr>,
            addr \<lparr>PodName = (cr_Name cr @ ''-leader-'') @ Itoa i, Namespace = cr_Namespace cr\<rparr>
              @ '':6379'',
            [''cluster'', ''meet'',
             addr \<lparr>PodName = (cr_Name cr @ ''-leader-'') @ Itoa j, Namespace = cr_Namespace cr\<rparr>,
             ''6379'']))
           [i + 1..GetReplicaCounts cr ''leader'' - 1]) [0..GetReplicaCounts cr ''leader'' - 2])"
    by blast
  have "executeMasterClusterCreation e cr h = h @ es"
    using es(1) by (simp add: executeMasterClusterCreation_def)
  moreover have "redis_cmds es =
               map (\<lambda>(i, j). (pod_of cr ''leader'' i,
                               addr (pod_of cr ''leader'' i) @ '':6379'',
                               [''cluster'', ''meet'', addr (pod_of cr ''leader'' j), ''6379'']))
                 (meet_pairs (GetReplicaCounts cr ''leader''))"
    unfolding es(2) by (simp add: meet_pairs_def map_concat comp_def pod_of_def)
  ultimately show ?thesis
    using set_meet_pairs distinct_meet_pairs sorted_meet_pairs by blast
qed

theorem executeMasterClusterCreation_meets_witness:
  "redis_cmds (executeMasterClusterCreation (test_env all_ok) (test_cr 3 0) []) =
     [(test_pod ''r-leader-0'', ''10.0.0.1:6379'', [''cluster'', ''meet'', ''10.0.0.2'', ''6379'']),
      (test_pod ''r-leader-0'', ''10.0.0.1:6379'', [''cluster'', ''meet'', ''10.0.0.3'', ''6379'']),
      (test_pod ''r-leader-1'', ''10.0.0.2:6379'', [''cluster'', ''meet'', ''10.0.0.3'', ''6379''])]"
proof -
  let ?e = "test_env all_ok"
  let ?addr = "\<lambda>r. fst (getRedisServerIP ?e r [])"
  have s: "fst (getRedisServerIP ?e r h) = ?addr r" for h r
    by (simp add: getRedisServerIP_def test_env_sel Let_def)
  have p: "meet_pairs 3 = [(0, 1), (0, 2), (1, 2)]"
    by code_simp
  from executeMasterClusterCreation_meets [of ?e ?addr "test_cr 3 0" "[]", OF s]
  obtain es where es: "executeMasterClusterCreation ?e (test_cr 3 0) [] = [] @ es"
    "redis_cmds es =
       map (\<lambda>(i, j). (pod_of (test_cr 3 0) ''leader'' i,
                       ?addr (pod_of (test_cr 3 0) ''leader'' i) @ '':6379'',
                       [''cluster'', ''meet'', ?addr (pod_of (test_cr 3 0) ''leader'' j), ''6379'']))
         (meet_pairs (GetReplicaCounts (test_cr 3 0) ''leader''))"
    by blast
  have "redis_cmds es =
       map (\<lambda>(i, j). (pod_of (test_cr 3 0) ''leader'' i,
                       ?addr (pod_of (test_cr 3 0) ''leader'' i) @ '':6379'',
                       [''cluster'', ''meet'', ?addr (pod_of (test_cr 3 0) ''leader'' j), ''6379'']))
         [(0, 1), (0, 2), (1, 2)]"
    using es(2) by (simp only: test_cr_sel p)
  then have "redis_cmds es =
     [(pod_of (test_cr 3 0) ''leader'' 0, ?addr (pod_of (test_cr 3 0) ''leader'' 0) @ '':6379'',
       [''cluster'', ''meet'', ?addr (pod_of (test_cr 3 0) ''leader'' 1), ''6379'']),
      (pod_of (test_cr 3 0) ''leader'' 0, ?addr (pod_of (test_cr 3 0) ''leader'' 0) @ '':6379'',
       [''cluster'', ''meet'', ?addr (pod_of (test_cr 3 0) ''leader'' 2), ''6379'']),
      (pod_of (test_cr 3 0) ''leader'' 1, ?addr (pod_of (test_cr 3 0) ''leader'' 1) @ '':6379'',
       [''cluster'', ''meet'', ?addr (pod_of (test_cr 3 0) ''leader'' 2), ''6379''])]"
    by (simp only: list.map prod.case)
  then show ?thesis
    unfolding es(1) append_Nil
    by (simp add: pod_of_def test_defs empty_pod_def)
qed

section \<open>Replica attachment: followers already present\<close>

lemma exec_cmds_append [simp]: "exec_cmds (es @ fs) = exec_cmds es @ exec_cmds fs"
  by (induction es rule: exec_cmds.induct) simp_all











lemmas attach_defs = ExecuteRedisReplicationCommand_def ExecuteRedisReplicationCommand_loop.simps
  ExecuteRedisReplicationCommand_body_def createRedisReplicationCommand_def executeCommand_def
  getContainerID_def getRedisTLSArgs_def attach_trace_def leader_only_table_def
  attached_table_def attach_takes_effect_def




text \<open>
  A follower with an IPv6 address is outside the statement above. \<^verbatim>\<open>getRedisServerIP\<close>
  returns such an address in brackets, and \<^verbatim>\<open>checkRedisNodePresence\<close> compares it with the
  text before the first colon of each address field, so the lookup finds no row, whatever
  the table. On the cluster below the node table lists the follower \<^verbatim>\<open>fd00::11\<close>, and the
  \<^verbatim>\<open>add-node\<close> command is run for it all the same.
\<close>

lemma checkRedisNodePresence_colon:
  "CHR '':'' \<in> set nodeName \<Longrightarrow> checkRedisNodePresence nodeList nodeName \<noteq> Inr True"
proof (induction nodeList)
  case Nil
  then show ?case by simp
next
  case (Cons node nodeList)
  have "CHR '':'' \<notin> set (ip_portion node)"
    unfolding ip_portion_def by (auto dest: set_takeWhileD)
  with Cons show ?case
    by (auto simp: checkRedisNodePresence_Cons simp del: checkRedisNodePresence.simps(2))
qed

lemma ipv6_env_sel:
  "pods_Get (ipv6_env reply) =
     (\<lambda>h r. if PodName r = ''r-leader-0''
            then Inr \<lparr>PodIP = ''fd00::10'', Containers = [''r-leader'']\<rparr>
            else if PodName r = ''r-follower-0''
            then Inr \<lparr>PodIP = ''fd00::11'', Containers = [''r-leader'']\<rparr>
            else Inl (Error ''pods not found''))"
  "getRedisPassword (ipv6_env reply) = (\<lambda>h ns name key. ([], None))"
  "net_To4 (ipv6_env reply) = (\<lambda>ip. ip \<noteq> [] \<and> CHR '':'' \<notin> set ip)"
  "redis_Process (ipv6_env reply) = reply"
  "csv_ReadAll (ipv6_env reply) = csv_plain"
  "generateK8sConfig (ipv6_env reply) = (\<lambda>h. None)"
  "NewSPDYExecutor (ipv6_env reply) = (\<lambda>h. None)"
  by (simp_all add: ipv6_env_def test_env_def)

lemma ExecuteRedisReplicationCommand_ipv6_listed:
  "fst (checkRedisCluster (ipv6_env (nodes_reply ipv6_attached_table)) (test_cr 1 1) []) =
     [[''id1'', ''fd00::10:6379@16379'', ''myself,master'', ''-'', ''0'', ''0'', ''1'', ''connected'', ''0-16383''],
      [''id2'', ''fd00::11:6379@16379'', ''slave'', ''id1'', ''0'', ''0'', ''1'', ''connected'']]
   \<and> row_lists [''id2'', ''fd00::11:6379@16379'', ''slave'', ''id1'', ''0'', ''0'', ''1'', ''connected'']
       ''fd00::11''
   \<and> fst (getRedisServerIP (ipv6_env (nodes_reply ipv6_attached_table))
            (pod_of (test_cr 1 1) ''follower'' 0) []) = ''[fd00::11]''
   \<and> exec_cmds (snd (ExecuteRedisReplicationCommand (ipv6_env (nodes_reply ipv6_attached_table))
                       (test_cr 1 1) [])) =
     [[''redis-cli'', ''--cluster'', ''add-node'', ''[fd00::11]:6379'', ''[fd00::10]:6379'',
       ''--cluster-slave'']]"
  by (simp add: row_lists_def address_ip_def ipv6_attached_table_def ipv6_env_sel attach_defs
      table_defs test_cr_sel test_client_def test_pod_def pod_of_def
      configureRedisClient_def getRedisServerIP_def Process_def Itoa_def Itoa_nat.simps Let_def)

section \<open>Graceful recovery: the forget steps\<close>

lemma executeClusterForget_inner_trace:
  "executeClusterForget_inner e client nodeIds h =
     h @ map (\<lambda>nodeId. RedisCmd client [''CLUSTER'', ''FORGET'', nodeId]) nodeIds"
  by (induction nodeIds arbitrary: h) (simp_all add: Process_def)

lemma ExecuteGracefulFailOverOperation_leader_error:
  "executeClusterForget e cr ''leader'' h = (Inr (Some err), h') \<Longrightarrow>
   ExecuteGracefulFailOverOperation e cr h = (Inr (Some err), h')"
  by (simp add: ExecuteGracefulFailOverOperation_def)

lemma ExecuteGracefulFailOverOperation_follower_error:
  "executeClusterForget e cr ''leader'' h = (Inr None, h') \<Longrightarrow>
   executeClusterForget e cr ''follower'' h' = (Inr (Some err), h'') \<Longrightarrow>
   ExecuteGracefulFailOverOperation e cr h = (Inr (Some err), h'')"
  by (simp add: ExecuteGracefulFailOverOperation_def)

text \<open>
  Claim C8. At every node of the loop of \<^verbatim>\<open>executeClusterForget\<close>: when the
  \<^verbatim>\<open>cluster nodes\<close> read fails, the loop returns that error at once; when it succeeds
  (and so does the take-over, which is sent only to a replica) a \<^verbatim>\<open>CLUSTER FORGET\<close> is
  sent for every node id of the response, whatever the server replies to each, and the
  loop goes on with the next node. An error returned by the forget step of the leaders, or
  of the followers after it, is what \<^verbatim>\<open>ExecuteGracefulFailOverOperation\<close> returns, with
  nothing sent afterwards.
\<close>

theorem executeClusterForget_error_policy:
  assumes "podCount \<le> count - 1"
    and "configureRedisClient e cr (podName @ Itoa podCount) h = (client, h1)"
  shows "(\<forall>err. redis_Process e h1 client [''cluster'', ''nodes''] = Inl err \<longrightarrow>
            executeClusterForget_loop e cr podName count podCount h =
              (Inr (Some err), h1 @ [RedisCmd client [''cluster'', ''nodes'']]))
       \<and> (\<forall>nodesResult nodeIds.
            redis_Process e h1 client [''cluster'', ''nodes''] = Inr nodesResult \<and>
            (Contains nodesResult ''myself,slave'' \<longrightarrow>
               (\<exists>v. redis_Process e (h1 @ [RedisCmd client [''cluster'', ''nodes'']]) client
                      [''CLUSTER'', ''FAILOVER'', ''TAKEOVER''] = Inr v)) \<and>
            getNodeIds e nodesResult = Inr (Inr nodeIds) \<longrightarrow>
            executeClusterForget_loop e cr podName count podCount h =
              executeClusterForget_loop e cr podName count (podCount + 1)
                (h1 @ RedisCmd client [''cluster'', ''nodes''] #
                   (if Contains nodesResult ''myself,slave''
                    then [RedisCmd client [''CLUSTER'', ''FAILOVER'', ''TAKEOVER'']] else []) @
                   map (\<lambda>nodeId. RedisCmd client [''CLUSTER'', ''FORGET'', nodeId]) nodeIds))
       \<and> (\<forall>err h'. executeClusterForget e cr ''leader'' h0 = (Inr (Some err), h') \<longrightarrow>
            ExecuteGracefulFailOverOperation e cr h0 = (Inr (Some err), h'))
       \<and> (\<forall>err h' h''. executeClusterForget e cr ''leader'' h0 = (Inr None, h') \<and>
            executeClusterForget e cr ''follower'' h' = (Inr (Some err), h'') \<longrightarrow>
            ExecuteGracefulFailOverOperation e cr h0 = (Inr (Some err), h''))"
proof (intro conjI allI impI)
  fix err
  assume "redis_Process e h1 client [''cluster'', ''nodes''] = Inl err"
  then show "executeClusterForget_loop e cr podName count podCount h =
              (Inr (Some err), h1 @ [RedisCmd client [''cluster'', ''nodes'']])"
    using assms
    by (subst executeClusterForget_loop.simps)
       (simp add: executeClusterForget_body_def Process_def)
next
  fix nodesResult nodeIds
  assume a: "redis_Process e h1 client [''cluster'', ''nodes''] = Inr nodesResult \<and>
            (Contains nodesResult ''myself,slave'' \<longrightarrow>
               (\<exists>v. redis_Process e (h1 @ [RedisCmd client [''cluster'', ''nodes'']]) client
                      [''CLUSTER'', ''FAILOVER'', ''TAKEOVER''] = Inr v)) \<and>
            getNodeIds e nodesResult = Inr (Inr nodeIds)"
  show "executeClusterForget_loop e cr podName count podCount h =
              executeClusterForget_loop e cr podName count (podCount + 1)
                (h1 @ RedisCmd client [''cluster'', ''nodes''] #
                   (if Contains nodesResult ''myself,slave''
                    then [RedisCmd client [''CLUSTER'', ''FAILOVER'', ''TAKEOVER'']] else []) @
                   map (\<lambda>nodeId. RedisCmd client [''CLUSTER'', ''FORGET'', nodeId]) nodeIds)"
  proof (cases "Contains nodesResult ''myself,slave''")
    case True
    with a obtain v where
      "redis_Process e (h1 @ [RedisCmd client [''cluster'', ''nodes'']]) client
         [''CLUSTER'', ''FAILOVER'', ''TAKEOVER''] = Inr v"
      by blast
    with a True assms show ?thesis
      by (subst executeClusterForget_loop.simps)
         (simp add: executeClusterForget_body_def Process_def executeClusterForget_inner_trace)
  next
    case False
    with a assms show ?thesis
      by (subst executeClusterForget_loop.simps)
         (simp add: executeClusterForget_body_def Process_def executeClusterForget_inner_trace)
  qed
next
  fix err h'
  assume "executeClusterForget e cr ''leader'' h0 = (Inr (Some err), h')"
  then show "ExecuteGracefulFailOverOperation e cr h0 = (Inr (Some err), h')"
    by (rule ExecuteGracefulFailOverOperation_leader_error)
next
  fix err h' h''
  assume "executeClusterForget e cr ''leader'' h0 = (Inr None, h') \<and>
            executeClusterForget e cr ''follower'' h' = (Inr (Some err), h'')"
  then show "ExecuteGracefulFailOverOperation e cr h0 = (Inr (Some err), h'')"
    using ExecuteGracefulFailOverOperation_follower_error by blast
qed

theorem executeClusterForget_error_policy_witness:
  "ExecuteGracefulFailOverOperation (test_env leader1_down_forget_rejected) (test_cr 2 0) [] =
     (Inr (Some (Error ''dial tcp 10.0.0.2:6379: i/o timeout'')),
      [PodGet (test_pod ''r-leader-0''),
       RedisCmd (test_client ''r-leader-0'' ''10.0.0.1'') [''cluster'', ''nodes''],
       RedisCmd (test_client ''r-leader-0'' ''10.0.0.1'') [''CLUSTER'', ''FORGET'', ''id1''],
       RedisCmd (test_client ''r-leader-0'' ''10.0.0.1'') [''CLUSTER'', ''FORGET'', ''id2''],
       PodGet (test_pod ''r-leader-1''),
       RedisCmd (test_client ''r-leader-1'' ''10.0.0.2'') [''cluster'', ''nodes'']])"
proof -
  let ?e = "test_env leader1_down_forget_rejected" and ?cr = "test_cr 2 0"
  let ?c0 = "test_client ''r-leader-0'' ''10.0.0.1''" and ?c1 = "test_client ''r-leader-1'' ''10.0.0.2''"
  let ?H = "[PodGet (test_pod ''r-leader-0''), RedisCmd ?c0 [''cluster'', ''nodes''],
             RedisCmd ?c0 [''CLUSTER'', ''FORGET'', ''id1''],
             RedisCmd ?c0 [''CLUSTER'', ''FORGET'', ''id2'']]"
  let ?err = "Error ''dial tcp 10.0.0.2:6379: i/o timeout''"
  have a0: "(0::int) \<le> 2 - 1" and a1: "(1::int) \<le> 2 - 1" by simp_all
  have b0: "configureRedisClient ?e ?cr (''r-leader-'' @ Itoa 0) [] =
              (?c0, [PodGet (test_pod ''r-leader-0'')])"
    by (simp add: test_defs)
  have b1: "configureRedisClient ?e ?cr (''r-leader-'' @ Itoa 1) ?H =
              (?c1, ?H @ [PodGet (test_pod ''r-leader-1'')])"
    by (simp add: test_defs)
  have r0: "redis_Process ?e [PodGet (test_pod ''r-leader-0'')] ?c0 [''cluster'', ''nodes'']
              = Inr two_masters_one_failed"
    by (simp add: test_env_sel leader1_down_forget_rejected_def test_client_def test_pod_def)
  have n0: "\<not> Contains two_masters_one_failed ''myself,slave''"
    by (simp add: two_masters_one_failed_def)
  have g0: "getNodeIds ?e two_masters_one_failed = Inr (Inr [''id1'', ''id2''])"
    by (simp add: getNodeIds_def test_env_sel csv_plain_def two_masters_one_failed_def)
  have r1: "redis_Process ?e (?H @ [PodGet (test_pod ''r-leader-1'')]) ?c1 [''cluster'', ''nodes'']
              = Inl ?err"
    by (simp add: test_env_sel leader1_down_forget_rejected_def test_client_def test_pod_def)
  have s0: "executeClusterForget_loop ?e ?cr ''r-leader-'' 2 0 [] =
              executeClusterForget_loop ?e ?cr ''r-leader-'' 2 1 ?H"
    using executeClusterForget_error_policy [OF a0 b0] r0 n0 g0 by simp
  have s1: "executeClusterForget_loop ?e ?cr ''r-leader-'' 2 1 ?H =
              (Inr (Some ?err), ?H @ [PodGet (test_pod ''r-leader-1''),
                                      RedisCmd ?c1 [''cluster'', ''nodes'']])"
    using executeClusterForget_error_policy [OF a1 b1] r1 by simp
  have "executeClusterForget ?e ?cr ''leader'' [] =
          (Inr (Some ?err), ?H @ [PodGet (test_pod ''r-leader-1''),
                                  RedisCmd ?c1 [''cluster'', ''nodes'']])"
    using s0 s1 by (simp add: executeClusterForget_def test_cr_sel)
  with executeClusterForget_error_policy [OF a0 b0, of "[]"]
  show ?thesis by simp
qed

section \<open>Graceful recovery: errors after the forget steps\<close>

text \<open>
  Claim C9. When both forget steps return without error, the mesh rebuild and the
  follower step run, the value returned by the follower step is dropped, and
  \<^verbatim>\<open>ExecuteGracefulFailOverOperation\<close> returns nil; the reset endpoint then answers 200 with
  status OK.
\<close>

theorem ExecuteGracefulFailOverOperation_ignores_later_errors:
  assumes "cl_Get e h ns cn = Inr cr"
    and "executeClusterForget e cr ''leader'' (h @ [CRGet ns cn]) = (Inr None, h1)"
    and "executeClusterForget e cr ''follower'' h1 = (Inr None, h2)"
  shows "ExecuteGracefulFailOverOperation e cr (h @ [CRGet ns cn]) =
           (Inr None,
            snd (executeFailoverCommand e cr ''follower'' (executeMasterClusterCreation e cr h2)))
       \<and> resetClusterHandler e ns cn h =
           (Inr \<lparr>status = 200, body = StatusBody [(''status'', ''OK'')]\<rparr>,
            snd (executeFailoverCommand e cr ''follower'' (executeMasterClusterCreation e cr h2)))"
  using assms
  by (simp add: ExecuteGracefulFailOverOperation_def resetClusterHandler_def recoverCluster_def
      Let_def split: prod.splits)

lemmas forget_defs = executeClusterForget_def executeClusterForget_loop.simps
  executeClusterForget_body_def executeClusterForget_inner_trace getNodeIds_def csv_plain_def
  two_masters_one_failed_def rebuild_fails_def

lemma rebuild_fails_env_sel:
  "pods_Get rebuild_fails_env = pods_Get (test_env rebuild_fails)"
  "getRedisPassword rebuild_fails_env = getRedisPassword (test_env rebuild_fails)"
  "net_To4 rebuild_fails_env = net_To4 (test_env rebuild_fails)"
  "redis_Process rebuild_fails_env = rebuild_fails"
  "csv_ReadAll rebuild_fails_env = csv_plain"
  "cl_Get rebuild_fails_env = (\<lambda>h ns cn. Inr (test_cr 2 1))"
  by (simp_all add: rebuild_fails_env_def test_env_def)

theorem ExecuteGracefulFailOverOperation_ignores_later_errors_witness:
  "fst (executeFailoverCommand rebuild_fails_env (test_cr 2 1) ''follower'' [])
     = Some (Error ''LOADING Redis is loading the dataset in memory'')
   \<and> fst (resetClusterHandler rebuild_fails_env ''ns'' ''r'' []) =
       Inr \<lparr>status = 200, body = StatusBody [(''status'', ''OK'')]\<rparr>"
proof -
  let ?e = rebuild_fails_env and ?cr = "test_cr 2 1"
  let ?h1 = "snd (executeClusterForget ?e ?cr ''leader'' ([] @ [CRGet ''ns'' ''r'']))"
  let ?h2 = "snd (executeClusterForget ?e ?cr ''follower'' ?h1)"
  have a: "cl_Get ?e [] ''ns'' ''r'' = Inr ?cr"
    by (simp add: rebuild_fails_env_sel)
  have "fst (executeClusterForget ?e ?cr ''leader'' ([] @ [CRGet ''ns'' ''r''])) = Inr None"
    by (simp add: forget_defs rebuild_fails_env_sel test_defs)
  then have b: "executeClusterForget ?e ?cr ''leader'' ([] @ [CRGet ''ns'' ''r'']) = (Inr None, ?h1)"
    by (simp add: prod_eq_iff)
  have "fst (executeClusterForget ?e ?cr ''follower'' ?h1) = Inr None"
    by (simp add: forget_defs rebuild_fails_env_sel test_defs)
  then have c: "executeClusterForget ?e ?cr ''follower'' ?h1 = (Inr None, ?h2)"
    by (simp add: prod_eq_iff)
  have d: "fst (executeFailoverCommand ?e ?cr ''follower'' [])
     = Some (Error ''LOADING Redis is loading the dataset in memory'')"
    by (simp add: executeFailoverCommand_def executeFailoverCommand_loop.simps
        executeFailoverCommand_body_def rebuild_fails_env_sel rebuild_fails_def test_defs)
  from ExecuteGracefulFailOverOperation_ignores_later_errors [OF a b c] d
  show ?thesis by simp
qed

end
